theory Spec2Isabelle
  imports Complex_Main "HOL-Library.Sublist"
begin

section \<open>Engine Deals AI: listing aggregation and deal scoring\<close>

text \<open>
  A shallow embedding of the Python sources under \<^verbatim>\<open>engine-deals-ai/\<close>:
  the scraper base class, the scraper manager, the persistence layer, the feature
  engineer, the deal-score model and the job scheduler.

  Conventions.
  \<^item> A Python \<^verbatim>\<open>str\<close> is a \<^typ>\<open>string\<close>. The sources only ever compare
    against ASCII keywords, and \<^verbatim>\<open>str.lower()\<close> is modelled on ASCII letters; text
    outside ASCII is left as it is.
  \<^item> \<^verbatim>\<open>needle in haystack\<close> on strings is \<^const>\<open>sublist\<close> (a contiguous
    occurrence), which is executable.
  \<^item> A Python \<^verbatim>\<open>float\<close> is a \<^typ>\<open>real\<close>; a missing value (\<^verbatim>\<open>NaN\<close>,
    \<^verbatim>\<open>None\<close>) is written out where the sources can meet one.
  \<^item> An exception is a value: functions that can raise return \<open>error + 'a\<close>.
\<close>

subsection \<open>Strings\<close>

definition lower_char :: "char \<Rightarrow> char" where
  "lower_char c =
     (let n = (of_char c :: nat) in if 65 \<le> n \<and> n \<le> 90 then char_of (n + 32) else c)"

definition lower :: "string \<Rightarrow> string" where
  "lower s = map lower_char s"

text \<open>
  \<^verbatim>\<open>str.split()\<close> without arguments splits at runs of whitespace and drops empty
  pieces; only the number of pieces is used by the sources.
\<close>

definition is_space :: "char \<Rightarrow> bool" where
  "is_space c = (c \<in> set [CHR '' '', CHR 0x09, CHR 0x0A, CHR 0x0B, CHR 0x0C, CHR 0x0D])"

fun split_words :: "string \<Rightarrow> string \<Rightarrow> string list" where
  "split_words cur [] = (if cur = [] then [] else [cur])"
| "split_words cur (c # cs) =
     (if is_space c then (if cur = [] then split_words [] cs else cur # split_words [] cs)
      else split_words (cur @ [c]) cs)"

definition split :: "string \<Rightarrow> string list" where
  "split s = split_words [] s"

subsection \<open>Configuration (\<^verbatim>\<open>config.py\<close>)\<close>

record config =
  SEARCH_TERMS :: "string list"
  MAX_PAGES_PER_SITE :: nat
  GOOD_CONDITION_KEYWORDS :: "string list"
  BAD_CONDITION_KEYWORDS :: "string list"
  HOT_DEAL_THRESHOLD :: real
  GOOD_DEAL_THRESHOLD :: real

definition Config :: config where
  "Config = \<lparr>
     SEARCH_TERMS = [''LQ4 engine'', ''Chevy V8 engine'', ''LS engine'', ''Vortec engine'',
       ''5.3 engine'', ''6.0 engine'', ''engine block'', ''cylinder heads'',
       ''intake manifold'', ''crankshaft'', ''pistons'', ''connecting rods''],
     MAX_PAGES_PER_SITE = 5,
     GOOD_CONDITION_KEYWORDS = [''rebuilt'', ''remanufactured'', ''new'', ''excellent'',
       ''perfect'', ''low miles'', ''fresh rebuild'', ''zero miles'', ''unused''],
     BAD_CONDITION_KEYWORDS = [''spun bearing'', ''cracked'', ''damaged'', ''blown'',
       ''seized'', ''needs work'', ''for parts'', ''rebuild needed'', ''bad''],
     HOT_DEAL_THRESHOLD = 0.8,
     GOOD_DEAL_THRESHOLD = 0.6 \<rparr>"

subsection \<open>The scraper base class (\<^verbatim>\<open>scrapers/base_scraper.py\<close>)\<close>

text \<open>
  \<^verbatim>\<open>extract_condition_keywords\<close>: the good keywords found, in the order of the
  configuration and tagged \<^verbatim>\<open>good_\<close>, then the bad ones tagged \<^verbatim>\<open>bad_\<close>.
\<close>

definition extract_condition_keywords :: "config \<Rightarrow> string \<Rightarrow> string list" where
  "extract_condition_keywords cfg txt =
     (if txt = [] then []
      else
        (let text_lower = lower txt
         in map (\<lambda>keyword. ''good_'' @ keyword)
              (filter (\<lambda>keyword. sublist (lower keyword) text_lower)
                 (GOOD_CONDITION_KEYWORDS cfg))
            @ map (\<lambda>keyword. ''bad_'' @ keyword)
                (filter (\<lambda>keyword. sublist (lower keyword) text_lower)
                   (BAD_CONDITION_KEYWORDS cfg))))"

definition engine_terms :: "string list" where
  "engine_terms = [''engine'', ''motor'', ''block'', ''head'', ''intake'', ''crank'',
     ''piston'', ''long block'', ''short block'']"

definition exclude_terms :: "string list" where
  "exclude_terms = [''boat'', ''marine'', ''motorcycle'', ''lawn'', ''generator'',
     ''pump'', ''compressor'']"

text \<open>
  \<^verbatim>\<open>is_relevant_listing(title, description="")\<close>; the text searched is
  \<^verbatim>\<open>f"{title} {description}".lower()\<close>, and \<^verbatim>\<open>any(...)\<close> is \<^const>\<open>list_ex\<close>.
\<close>

definition is_relevant_listing :: "string \<Rightarrow> string \<Rightarrow> bool" where
  "is_relevant_listing title description =
     (let txt = lower (title @ '' '' @ description);
          has_engine_term = list_ex (\<lambda>t. sublist t txt) engine_terms
      in if has_engine_term
         then (let has_exclude_term = list_ex (\<lambda>t. sublist t txt) exclude_terms
               in if \<not> has_exclude_term then True else False)
         else False)"

subsection \<open>Location features (\<^verbatim>\<open>ml/feature_engineering.py\<close>)\<close>

definition city_distances :: "(string \<times> int) list" where
  "city_distances = [(''new york'', 0), (''nyc'', 0), (''manhattan'', 0), (''brooklyn'', 10),
     (''philadelphia'', 95), (''boston'', 215), (''washington'', 225),
     (''chicago'', 790), (''detroit'', 640), (''atlanta'', 870),
     (''miami'', 1280), (''houston'', 1630), (''dallas'', 1550),
     (''los angeles'', 2800), (''san francisco'', 2900), (''seattle'', 2900)]"

definition state_distances :: "(string \<times> int) list" where
  "state_distances = [(''ny'', 100), (''nj'', 50), (''ct'', 100), (''pa'', 150), (''ma'', 200),
     (''md'', 250), (''va'', 350), (''nc'', 500), (''sc'', 650), (''ga'', 850),
     (''fl'', 1200), (''oh'', 500), (''mi'', 650), (''il'', 800), (''in'', 700),
     (''tx'', 1600), (''ca'', 2800), (''wa'', 2900), (''or'', 2800)]"

text \<open>
  The loop \<^verbatim>\<open>for key, distance in table.items(): if key in location_lower: return distance\<close>
  walks the dictionary in insertion order and returns at the first key that occurs in
  the location.
\<close>

fun first_hit :: "(string \<times> int) list \<Rightarrow> string \<Rightarrow> int option" where
  "first_hit [] location_lower = None"
| "first_hit ((key, distance) # table) location_lower =
     (if sublist key location_lower then Some distance else first_hit table location_lower)"

definition estimate_distance :: "string \<Rightarrow> int" where
  "estimate_distance location =
     (if location = [] then 500
      else
        (let location_lower = lower location
         in case first_hit city_distances location_lower of
              Some distance \<Rightarrow> distance
            | None \<Rightarrow>
                (case first_hit state_distances location_lower of
                   Some distance \<Rightarrow> distance
                 | None \<Rightarrow> 300)))"

text \<open>
  \<^verbatim>\<open>_create_location_features\<close> adds five columns; one row of them is computed
  from one location. The two \<^verbatim>\<open>astype(int)\<close> columns hold 0 or 1.
\<close>

record location_features =
  estimated_distance :: int
  is_local :: int
  is_regional :: int
  has_specific_location :: bool
  location_word_count :: nat

definition create_location_features :: "string \<Rightarrow> location_features" where
  "create_location_features location =
     (let d = estimate_distance location
      in \<lparr> estimated_distance = d,
           is_local = (if d < 100 then 1 else 0),
           is_regional = (if d < 300 then 1 else 0),
           has_specific_location = (length location > 5),
           location_word_count = length (split location) \<rparr>)"

subsection \<open>Listings and exceptions\<close>

text \<open>
  A scraped listing is the dictionary the scrapers build. \<^verbatim>\<open>price\<close> is
  \<^verbatim>\<open>None\<close> when the price text does not parse.
\<close>

record listing =
  platform :: string
  title :: string
  description :: string
  price :: "real option"
  location :: string
  seller_name :: string
  url :: string
  image_urls :: "string list"
  condition_keywords :: "string list"

text \<open>
  A row of the \<^verbatim>\<open>listings\<close> table: the listing's columns and the columns the
  table adds. The scheduler's dictionaries of new listings and hot deals carry the same
  keys (\<^verbatim>\<open>listing['id'] = listing_id\<close>).
\<close>

record listing_row = listing +
  listing_id :: nat
  scraped_at :: nat
  is_active :: bool
  deal_score :: "real option"
  is_hot_deal :: bool

text \<open>
  An exception raised inside a collaborator whose code is a library or a site adapter
  (a scraper, a notifier's HTTP call, pandas, scikit-learn): any instance of
  \<^verbatim>\<open>Exception\<close>, with its message.
\<close>

datatype exn = Exception string

text \<open>
  What the modelled functions themselves can raise: the two \<^verbatim>\<open>ValueError\<close>s of
  the deal-score model, pandas' \<^verbatim>\<open>KeyError\<close> for a column that is not there, and an
  exception passed on from a collaborator. \<open>Unmodelled\<close> marks the inputs on which the
  model does not say what the code does (text in a column that is used as a number, an
  IEEE infinity); no theorem below is about such an input.
\<close>

datatype error =
    Model_not_trained
  | No_model_to_save
  | KeyError string
  | Raised exn
  | Unmodelled string

subsection \<open>The scraper manager (\<^verbatim>\<open>scraper_manager.py\<close>)\<close>

text \<open>
  A scraper's \<^verbatim>\<open>scrape_listings(search_terms, max_pages)\<close> returns listings or
  raises. The manager keeps its scrapers in a dictionary, walked in insertion order.
  The model records the logger's lines, which show which scrapers were called.
\<close>

type_synonym scraper = "string list \<Rightarrow> nat \<Rightarrow> exn + listing list"

datatype scrape_log =
    Scraping string
  | Found nat string
  | Error_scraping string exn
  | Total_scraped nat

text \<open>
  The loop of \<^verbatim>\<open>scrape_all_platforms\<close>: \<^verbatim>\<open>try: ... all_listings.extend(listings)\<close>,
  \<^verbatim>\<open>except Exception: ... continue\<close>.
\<close>

fun scrape_loop ::
  "config \<Rightarrow> (string \<times> scraper) list \<Rightarrow> scrape_log list \<times> listing list
     \<Rightarrow> scrape_log list \<times> listing list" where
  "scrape_loop cfg [] (logged, all_listings) = (logged, all_listings)"
| "scrape_loop cfg ((platform_name, scraper) # rest) (logged, all_listings) =
     (case scraper (SEARCH_TERMS cfg) (MAX_PAGES_PER_SITE cfg) of
        Inr listings \<Rightarrow>
          scrape_loop cfg rest
            (logged @ [Scraping platform_name, Found (length listings) platform_name],
             all_listings @ listings)
      | Inl e \<Rightarrow>
          scrape_loop cfg rest
            (logged @ [Scraping platform_name, Error_scraping platform_name e],
             all_listings))"

definition scrape_all_platforms ::
  "config \<Rightarrow> (string \<times> scraper) list \<Rightarrow> scrape_log list \<times> listing list" where
  "scrape_all_platforms cfg scrapers =
     (let (logged, all_listings) = scrape_loop cfg scrapers ([], [])
      in (logged @ [Total_scraped (length all_listings)], all_listings))"

subsection \<open>The persistence layer (\<^verbatim>\<open>data/database.py\<close>)\<close>

record training_label =
  label_listing_id :: nat
  is_good_deal :: "bool option"
  user_rating :: "int option"

record notification =
  notified_listing_id :: nat
  notification_type :: string
  success :: bool

text \<open>
  The three tables, and the counter SQLite keeps for the
  \<^verbatim>\<open>AUTOINCREMENT\<close> key of \<^verbatim>\<open>listings\<close> (the largest row id handed out so far).
\<close>

record database =
  listings :: "listing_row list"
  listings_seq :: nat
  training_data :: "training_label list"
  notifications :: "notification list"

definition init_database :: database where
  "init_database = \<lparr> listings = [], listings_seq = 0, training_data = [], notifications = [] \<rparr>"

text \<open>
  \<^verbatim>\<open>insert_listing\<close> runs \<^verbatim>\<open>INSERT OR IGNORE\<close> on a connection of its own and
  returns \<^verbatim>\<open>cursor.lastrowid\<close>. The column \<^verbatim>\<open>url\<close> is \<^verbatim>\<open>UNIQUE\<close>: when a
  row with the listing's url exists, the statement inserts nothing and raises nothing,
  so the handler \<^verbatim>\<open>except sqlite3.IntegrityError: return None\<close> is never entered.
  The connection has then inserted no row, and \<^verbatim>\<open>lastrowid\<close> is what
  \<^verbatim>\<open>sqlite3_last_insert_rowid\<close> reports for such a connection: the integer 0.
  SQLite picks the next key before it checks the constraint, so the key counter
  advances on an ignored insert as well; nothing below depends on that.
  The result is Python's value: \<open>Some n\<close> for the integer \<open>n\<close>, \<open>None\<close> for
  \<^verbatim>\<open>None\<close>. The second argument is the clock behind \<^verbatim>\<open>CURRENT_TIMESTAMP\<close>.
\<close>

definition new_row :: "nat \<Rightarrow> nat \<Rightarrow> listing \<Rightarrow> listing_row" where
  "new_row rowid now listing_data =
     listing.extend listing_data
       (listing_row.fields rowid now True None False)"



definition update_deal_score :: "database \<Rightarrow> nat \<Rightarrow> real \<Rightarrow> bool \<Rightarrow> database" where
  "update_deal_score db lid score hot =
     db\<lparr>listings :=
          map (\<lambda>r. if listing_id r = lid then r\<lparr>deal_score := Some score, is_hot_deal := hot\<rparr> else r)
            (listings db)\<rparr>"

definition log_notification :: "database \<Rightarrow> nat \<Rightarrow> string \<Rightarrow> bool \<Rightarrow> database" where
  "log_notification db lid kind ok =
     db\<lparr>notifications := notifications db
          @ [\<lparr> notified_listing_id = lid, notification_type = kind, success = ok \<rparr>]\<rparr>"




subsection \<open>Notifications (\<^verbatim>\<open>notifications/discord_bot.py\<close>, \<^verbatim>\<open>scheduler/job_scheduler.py\<close>)\<close>

text \<open>
  \<^verbatim>\<open>DiscordNotifier.send_hot_deal_alert\<close>: \<^verbatim>\<open>False\<close> without a webhook URL;
  otherwise the embed is built and posted inside \<^verbatim>\<open>try\<close>, the answer is whether
  the status code is 204, and every exception is turned into \<^verbatim>\<open>False\<close>. The first
  argument stands for building the embed and \<^verbatim>\<open>requests.post\<close>: it gives the status
  code or raises.
\<close>

record discord_notifier =
  webhook_url :: "string option"

definition discord_send_hot_deal_alert ::
  "(string \<Rightarrow> listing_row \<Rightarrow> exn + nat) \<Rightarrow> discord_notifier \<Rightarrow> listing_row \<Rightarrow> bool" where
  "discord_send_hot_deal_alert post self deal =
     (case webhook_url self of
        None \<Rightarrow> False
      | Some u \<Rightarrow>
          if u = [] then False
          else (case post u deal of
                  Inr status_code \<Rightarrow> (if status_code = 204 then True else False)
                | Inl e \<Rightarrow> False))"

text \<open>
  The scheduler holds its notifiers in a dictionary from channel name to notifier; a
  notifier's \<^verbatim>\<open>send_hot_deal_alert\<close> returns its success flag or raises.
  \<^verbatim>\<open>_send_hot_deal_notifications\<close> is one \<^verbatim>\<open>try\<close> block around both channels.
  The model returns the database, the channels whose notifier was called, and the
  exception the handler logged, if any.
\<close>

type_synonym notifier = "listing_row \<Rightarrow> exn + bool"

definition notify_channel ::
  "(string \<rightharpoonup> notifier) \<Rightarrow> listing_row \<Rightarrow> string \<Rightarrow> database \<times> string list
     \<Rightarrow> exn \<times> database \<times> string list + database \<times> string list" where
  "notify_channel notifiers deal channel st =
     (case st of (db, called) \<Rightarrow>
        (case notifiers channel of
           None \<Rightarrow> Inr (db, called)
         | Some send_hot_deal_alert \<Rightarrow>
             (case send_hot_deal_alert deal of
                Inl e \<Rightarrow> Inl (e, db, called @ [channel])
              | Inr ok \<Rightarrow>
                  Inr (log_notification db (listing_id deal) channel ok, called @ [channel]))))"

definition send_hot_deal_notifications ::
  "(string \<rightharpoonup> notifier) \<Rightarrow> database \<Rightarrow> listing_row
     \<Rightarrow> database \<times> string list \<times> exn option" where
  "send_hot_deal_notifications notifiers db deal =
     (case (case notify_channel notifiers deal ''discord'' (db, []) of
              Inl caught \<Rightarrow> Inl caught
            | Inr st \<Rightarrow> notify_channel notifiers deal ''email'' st) of
        Inr (db', called) \<Rightarrow> (db', called, None)
      | Inl (e, db', called) \<Rightarrow> (db', called, Some e))"

subsection \<open>Data frames\<close>

text \<open>
  A pandas \<^verbatim>\<open>DataFrame\<close>: its number of rows and its columns in order, each a name
  and one cell per row. A cell is a number, a missing value (\<^verbatim>\<open>NaN\<close>,
  \<^verbatim>\<open>None\<close>) or text. A numeric series is a list of \<^typ>\<open>real option\<close>, \<open>None\<close>
  for \<^verbatim>\<open>NaN\<close>.
\<close>

datatype cell = Num real | NaN | Str string

record frame =
  n_rows :: nat
  cols :: "(string \<times> cell list) list"

type_synonym series = "real option list"

definition columns :: "frame \<Rightarrow> string list" where
  "columns df = map fst (cols df)"

text \<open>\<^verbatim>\<open>df[name]\<close>\<close>

definition getitem :: "frame \<Rightarrow> string \<Rightarrow> error + cell list" where
  "getitem df name =
     (case map_of (cols df) name of None \<Rightarrow> Inl (KeyError name) | Some col \<Rightarrow> Inr col)"

text \<open>\<^verbatim>\<open>df[name] = col\<close>: replaces the column where it stands, or appends it.\<close>

fun set_column :: "(string \<times> cell list) list \<Rightarrow> string \<Rightarrow> cell list \<Rightarrow> (string \<times> cell list) list" where
  "set_column [] name col = [(name, col)]"
| "set_column ((k, c) # rest) name col =
     (if k = name then (name, col) # rest else (k, c) # set_column rest name col)"

definition setitem :: "frame \<Rightarrow> string \<Rightarrow> cell list \<Rightarrow> frame" where
  "setitem df name col = df\<lparr>cols := set_column (cols df) name col\<rparr>"

text \<open>
  \<^verbatim>\<open>df[names]\<close> with a list of names: the named columns in the order of the list. A
  name that is no column raises \<^verbatim>\<open>KeyError\<close> (pandas lists every missing name in
  the message; the model keeps the first).
\<close>

fun select_columns :: "(string \<times> cell list) list \<Rightarrow> string list \<Rightarrow> error + (string \<times> cell list) list" where
  "select_columns cs [] = Inr []"
| "select_columns cs (name # names) =
     (case map_of cs name of
        None \<Rightarrow> Inl (KeyError name)
      | Some col \<Rightarrow>
          (case select_columns cs names of
             Inl e \<Rightarrow> Inl e
           | Inr rest \<Rightarrow> Inr ((name, col) # rest)))"

definition select :: "frame \<Rightarrow> string list \<Rightarrow> error + frame" where
  "select df names =
     (case select_columns (cols df) names of
        Inl e \<Rightarrow> Inl e
      | Inr cs \<Rightarrow> Inr (df\<lparr>cols := cs\<rparr>))"

text \<open>\<^verbatim>\<open>df.fillna(v)\<close>\<close>

definition fill_cell :: "real \<Rightarrow> cell \<Rightarrow> cell" where
  "fill_cell v c = (case c of NaN \<Rightarrow> Num v | _ \<Rightarrow> c)"

definition fillna :: "real \<Rightarrow> frame \<Rightarrow> frame" where
  "fillna v df = df\<lparr>cols := map (\<lambda>(name, col). (name, map (fill_cell v) col)) (cols df)\<rparr>"

text \<open>\<^verbatim>\<open>s[mask]\<close> and \<^verbatim>\<open>df[mask]\<close> with a Boolean mask.\<close>

definition masked :: "bool list \<Rightarrow> 'a list \<Rightarrow> 'a list" where
  "masked msk xs = map snd (filter fst (zip msk xs))"

definition mask_rows :: "bool list \<Rightarrow> frame \<Rightarrow> frame" where
  "mask_rows msk df =
     \<lparr> n_rows = length (filter id msk),
       cols = map (\<lambda>(name, col). (name, masked msk col)) (cols df) \<rparr>"

text \<open>Reading cells as numbers, and numbers as cells.\<close>

fun floats :: "cell list \<Rightarrow> error + series" where
  "floats [] = Inr []"
| "floats (c # cs) =
     (case c of
        Str s \<Rightarrow> Inl (Unmodelled ''text in a numeric column'')
      | _ \<Rightarrow>
          (case floats cs of
             Inl e \<Rightarrow> Inl e
           | Inr vs \<Rightarrow> Inr ((case c of Num x \<Rightarrow> Some x | _ \<Rightarrow> None) # vs)))"

definition of_series :: "series \<Rightarrow> cell list" where
  "of_series vs = map (\<lambda>v. case v of None \<Rightarrow> NaN | Some x \<Rightarrow> Num x) vs"

text \<open>The values of a series that are not \<^verbatim>\<open>NaN\<close>.\<close>

definition present :: "series \<Rightarrow> real list" where
  "present vs = concat (map (\<lambda>v. case v of None \<Rightarrow> [] | Some x \<Rightarrow> [x]) vs)"

text \<open>
  \<^verbatim>\<open>Series.min()\<close> and \<^verbatim>\<open>Series.max()\<close> skip \<^verbatim>\<open>NaN\<close> and are \<^verbatim>\<open>NaN\<close>
  when no value is left.
\<close>

definition series_min :: "series \<Rightarrow> real option" where
  "series_min vs = (case present vs of [] \<Rightarrow> None | x # xs \<Rightarrow> Some (fold min xs x))"

definition series_max :: "series \<Rightarrow> real option" where
  "series_max vs = (case present vs of [] \<Rightarrow> None | x # xs \<Rightarrow> Some (fold max xs x))"

text \<open>
  \<^verbatim>\<open>Series.std()\<close>: the sample standard deviation (\<^verbatim>\<open>ddof=1\<close>) of the values
  that are not \<^verbatim>\<open>NaN\<close>, and \<^verbatim>\<open>NaN\<close> when fewer than two are left.
\<close>

definition mean :: "real list \<Rightarrow> real" where
  "mean xs = sum_list xs / real (length xs)"

definition std :: "series \<Rightarrow> real option" where
  "std vs =
     (let xs = present vs
      in if length xs < 2 then None
         else Some (sqrt (sum_list (map (\<lambda>x. (x - mean xs)\<^sup>2) xs) / real (length xs - 1))))"

text \<open>
  \<^verbatim>\<open>Series.rank(pct=True)\<close>: the average rank of a value among the values that are
  not \<^verbatim>\<open>NaN\<close>, divided by their number; \<^verbatim>\<open>NaN\<close> keeps no rank.
\<close>

definition rank_pct :: "series \<Rightarrow> real option \<Rightarrow> real option" where
  "rank_pct vs v =
     (case v of
        None \<Rightarrow> None
      | Some x \<Rightarrow>
          Some ((real (length (filter (\<lambda>y. y < x) (present vs)))
                 + (real (length (filter (\<lambda>y. y = x) (present vs))) + 1) / 2)
                / real (length (present vs))))"

definition clip :: "real \<Rightarrow> real \<Rightarrow> real \<Rightarrow> real" where
  "clip x lo hi = min hi (max lo x)"

text \<open>
  Arithmetic on floats that may be \<^verbatim>\<open>NaN\<close>: the result is \<^verbatim>\<open>NaN\<close> as soon as
  an operand is.
\<close>

definition fop :: "(real \<Rightarrow> real \<Rightarrow> real) \<Rightarrow> real option \<Rightarrow> real option \<Rightarrow> real option" where
  "fop f a b = (case a of None \<Rightarrow> None | Some x \<Rightarrow> (case b of None \<Rightarrow> None | Some y \<Rightarrow> Some (f x y)))"

text \<open>\<^verbatim>\<open>Series.unique()\<close>: the values in the order of their first occurrence.\<close>

definition unique :: "'a list \<Rightarrow> 'a list" where
  "unique xs = rev (remdups (rev xs))"

subsection \<open>Synthetic labels (\<^verbatim>\<open>DealScoreModel._create_synthetic_labels\<close>)\<close>

text \<open>
  \<^verbatim>\<open>df.loc[mask, 'deal_score'] += values\<close>, where \<^verbatim>\<open>values\<close> holds one entry per
  row of the mask, in row order.
\<close>

fun add_where :: "bool list \<Rightarrow> series \<Rightarrow> series \<Rightarrow> series" where
  "add_where (True # ms) (v # vs) (s # ss) = fop (+) s v # add_where ms vs ss"
| "add_where (False # ms) vs (s # ss) = s # add_where ms vs ss"
| "add_where ms vs ss = ss"

text \<open>
  One round of the loop over the platforms: the rows of the platform, their prices,
  the guard \<^verbatim>\<open>len(prices) > 1 and prices.std() > 0\<close>, and the update by
  \<^verbatim>\<open>0.3 * (1 - prices.rank(pct=True))\<close>. A comparison with \<^verbatim>\<open>NaN\<close> is false.
\<close>

definition adjust_platform :: "cell list \<Rightarrow> cell list \<Rightarrow> cell \<Rightarrow> series \<Rightarrow> error + series" where
  "adjust_platform platforms price_col p score =
     (let msk = map (\<lambda>c. c = p \<and> c \<noteq> NaN) platforms;
          group = masked msk price_col
      in if length group > 1
         then (case floats group of
                 Inl e \<Rightarrow> Inl e
               | Inr prices \<Rightarrow>
                   if (case std prices of None \<Rightarrow> False | Some sd \<Rightarrow> sd > 0)
                   then Inr (add_where msk
                          (map (\<lambda>v. fop (*) (Some 0.3) (fop (-) (Some 1) (rank_pct prices v))) prices)
                          score)
                   else Inr score)
         else Inr score)"

fun adjust_platforms :: "cell list \<Rightarrow> cell list \<Rightarrow> cell list \<Rightarrow> series \<Rightarrow> error + series" where
  "adjust_platforms platforms price_col [] score = Inr score"
| "adjust_platforms platforms price_col (p # ps) score =
     (case adjust_platform platforms price_col p score of
        Inl e \<Rightarrow> Inl e
      | Inr score' \<Rightarrow> adjust_platforms platforms price_col ps score')"

definition price_block :: "frame \<Rightarrow> series \<Rightarrow> error + series" where
  "price_block df score =
     (case map_of (cols df) ''price'' of
        None \<Rightarrow> Inr score
      | Some price_col \<Rightarrow>
          if list_ex (\<lambda>c. c \<noteq> NaN) price_col
          then (case getitem df ''platform'' of
                  Inl e \<Rightarrow> Inl e
                | Inr platforms \<Rightarrow> adjust_platforms platforms price_col (unique platforms) score)
          else Inr score)"

definition eps :: real where
  "eps = 1 / 10 ^ 8"

definition condition_block :: "frame \<Rightarrow> series \<Rightarrow> error + series" where
  "condition_block df score =
     (case map_of (cols df) ''condition_score'' of
        None \<Rightarrow> Inr score
      | Some col \<Rightarrow>
          (case floats col of
             Inl e \<Rightarrow> Inl e
           | Inr cs \<Rightarrow>
               (let lo = series_min cs; hi = series_max cs;
                    condition_norm =
                      map (\<lambda>c. fop (/) (fop (-) c lo) (fop (+) (fop (-) hi lo) (Some eps))) cs
                in Inr (map2 (\<lambda>s c. fop (+) s (fop (*) (Some 0.2) c)) score condition_norm))))"

text \<open>
  The priority score is divided by its maximum plus \<^verbatim>\<open>1e-8\<close>. The sum is never 0 on
  a column of non-negative scores; where it is, IEEE division gives infinities.
\<close>

definition priority_block :: "frame \<Rightarrow> series \<Rightarrow> error + series" where
  "priority_block df score =
     (case map_of (cols df) ''lq4_priority_score'' of
        None \<Rightarrow> Inr score
      | Some col \<Rightarrow>
          (case floats col of
             Inl e \<Rightarrow> Inl e
           | Inr ls \<Rightarrow>
               (let denominator = fop (+) (series_max ls) (Some eps)
                in if denominator = Some 0 then Inl (Unmodelled ''division by zero'')
                   else (let lq4_norm = map (\<lambda>l. fop (/) l denominator) ls
                         in Inr (map2 (\<lambda>s l. fop (+) s (fop (*) (Some 0.3) l)) score lq4_norm)))))"

definition distance_block :: "frame \<Rightarrow> series \<Rightarrow> error + series" where
  "distance_block df score =
     (case map_of (cols df) ''estimated_distance'' of
        None \<Rightarrow> Inr score
      | Some col \<Rightarrow>
          (case floats col of
             Inl e \<Rightarrow> Inl e
           | Inr ds \<Rightarrow>
               (let distance_penalty = map (map_option (\<lambda>d. clip (d / 1000) 0 0.2)) ds
                in Inr (map2 (\<lambda>s pen. fop (-) s pen) score distance_penalty))))"

definition reliability_block :: "frame \<Rightarrow> series \<Rightarrow> error + series" where
  "reliability_block df score =
     (case map_of (cols df) ''platform_reliability'' of
        None \<Rightarrow> Inr score
      | Some col \<Rightarrow>
          (case floats col of
             Inl e \<Rightarrow> Inl e
           | Inr rs \<Rightarrow> Inr (map2 (\<lambda>s r. fop (+) s (fop (*) (Some 0.1) r)) score rs)))"

definition create_synthetic_labels :: "frame \<Rightarrow> error + frame" where
  "create_synthetic_labels df =
     (case price_block df (replicate (n_rows df) (Some 0.5)) of
        Inl e \<Rightarrow> Inl e
      | Inr s1 \<Rightarrow>
     (case condition_block df s1 of
        Inl e \<Rightarrow> Inl e
      | Inr s2 \<Rightarrow>
     (case priority_block df s2 of
        Inl e \<Rightarrow> Inl e
      | Inr s3 \<Rightarrow>
     (case distance_block df s3 of
        Inl e \<Rightarrow> Inl e
      | Inr s4 \<Rightarrow>
     (case reliability_block df s4 of
        Inl e \<Rightarrow> Inl e
      | Inr s5 \<Rightarrow>
          Inr (setitem df ''deal_score''
                 (of_series (map (map_option (\<lambda>x. clip x 0 1)) s5))))))))"

subsection \<open>The deal-score model (\<^verbatim>\<open>ml/model_training.py\<close>)\<close>

text \<open>
  scikit-learn and numpy's random generator are parameters: a scaler \<open>'s\<close>, a regressor
  \<open>'m\<close>, a scaled matrix \<open>'x\<close> and the metrics \<open>'r\<close> are whatever the library makes of
  them, and every call may raise. \<open>random name i\<close> is the \<open>i\<close>-th number drawn for the
  column \<open>name\<close> after \<^verbatim>\<open>np.random.seed(42)\<close>.
\<close>

record ('s, 'm, 'x, 'r) sklearn =
  StandardScaler :: 's
  fit_transform :: "'s \<Rightarrow> frame \<Rightarrow> exn + 's \<times> 'x"
  transform :: "'s \<Rightarrow> frame \<Rightarrow> exn + 'x"
  GradientBoostingRegressor :: 'm
  fit :: "'m \<Rightarrow> 'x \<Rightarrow> cell list \<Rightarrow> exn + 'm"
  predict :: "'m \<Rightarrow> 'x \<Rightarrow> exn + real list"
  train_test_split :: "frame \<Rightarrow> cell list \<Rightarrow> exn + frame \<times> frame \<times> cell list \<times> cell list"
  evaluate :: "'m \<Rightarrow> 'x \<Rightarrow> cell list \<Rightarrow> cell list \<Rightarrow> real list \<Rightarrow> exn + 'r"
  random :: "string \<Rightarrow> nat \<Rightarrow> real"

text \<open>The fields of a \<^verbatim>\<open>DealScoreModel\<close>; each is \<^verbatim>\<open>None\<close> at first.\<close>

record ('s, 'm) deal_score_model =
  model :: "'m option"
  scaler :: "'s option"
  feature_columns :: "string list option"

definition new_deal_score_model :: "('s, 'm) deal_score_model" where
  "new_deal_score_model = \<lparr> model = None, scaler = None, feature_columns = None \<rparr>"

definition exclude_cols :: "string list" where
  "exclude_cols = [''id'', ''platform'', ''title'', ''description'', ''url'', ''seller_name'',
     ''scraped_at'', ''is_active'', ''deal_score'', ''is_hot_deal'',
     ''condition_keywords'', ''condition_keywords_parsed'', ''image_urls'']"

text \<open>\<^verbatim>\<open>~y.isna() & (y >= 0) & (y <= 1)\<close>\<close>

definition valid_label :: "real option \<Rightarrow> bool" where
  "valid_label v = (case v of None \<Rightarrow> False | Some x \<Rightarrow> 0 \<le> x \<and> x \<le> 1)"

text \<open>
  \<^verbatim>\<open>prepare_training_data\<close>, with \<^verbatim>\<open>FeatureEngineer.create_features\<close> as a
  parameter. The result is the list of feature columns (which the caller's object
  records in \<^verbatim>\<open>self.feature_columns\<close>), \<^verbatim>\<open>X\<close> and \<^verbatim>\<open>y\<close>.
\<close>

definition prepare_training_data ::
  "(frame \<Rightarrow> exn + frame) \<Rightarrow> frame \<Rightarrow> error + string list \<times> frame \<times> cell list" where
  "prepare_training_data create_features df =
     (case create_features df of
        Inl e \<Rightarrow> Inl (Raised e)
      | Inr engineered \<Rightarrow>
     (case (if ''deal_score'' \<notin> set (columns engineered)
            then create_synthetic_labels engineered else Inr engineered) of
        Inl e \<Rightarrow> Inl e
      | Inr df_features \<Rightarrow>
     (let feature_cols = filter (\<lambda>col. col \<notin> set exclude_cols) (columns df_features)
      in case select df_features feature_cols of
           Inl e \<Rightarrow> Inl e
         | Inr selected \<Rightarrow>
     (case getitem df_features ''deal_score'' of
        Inl e \<Rightarrow> Inl e
      | Inr y \<Rightarrow>
     (case floats y of
        Inl e \<Rightarrow> Inl e
      | Inr labels \<Rightarrow>
          (let valid_mask = map valid_label labels
           in Inr (feature_cols, mask_rows valid_mask (fillna 0 selected),
                   masked valid_mask y)))))))"

definition synthetic_columns :: "string list" where
  "synthetic_columns = [''price'', ''log_price'', ''title_length'', ''title_word_count'',
     ''description_length'', ''has_description'', ''good_condition_count'',
     ''bad_condition_count'', ''condition_score'', ''is_rebuilt'', ''is_new'', ''needs_work'',
     ''estimated_distance'', ''is_local'', ''platform_reliability'', ''is_lq4'',
     ''is_ls_engine'', ''is_chevy'', ''is_v8'', ''lq4_priority_score'', ''is_complete_engine'']"

definition n_samples :: nat where
  "n_samples = 1000"

text \<open>
  The label of one synthetic row. The price is scaled by the spread of all prices; when
  all prices are equal the quotient is \<^verbatim>\<open>0/0\<close>, which is \<^verbatim>\<open>NaN\<close>.
\<close>

definition synthetic_deal_score :: "(string \<Rightarrow> nat \<Rightarrow> real) \<Rightarrow> real \<Rightarrow> real \<Rightarrow> nat \<Rightarrow> real option" where
  "synthetic_deal_score rnd lo hi i =
     (if hi - lo = 0 then None
      else Some (clip
        (0.3 * (1 - (rnd ''price'' i - lo) / (hi - lo))
         + 0.2 * clip (rnd ''condition_score'' i / 5) 0 1
         + 0.2 * rnd ''lq4_priority_score'' i / 8
         + 0.1 * rnd ''is_rebuilt'' i
         + 0.1 * rnd ''platform_reliability'' i
         + 0.1 * (1 - clip (rnd ''estimated_distance'' i / 1000) 0 1)
         + rnd ''noise'' i) 0 1))"

definition create_synthetic_training_data ::
  "('s, 'm, 'x, 'r) sklearn \<Rightarrow> string list \<times> frame \<times> cell list" where
  "create_synthetic_training_data lib =
     (let rows = [0..<n_samples];
          df = \<lparr> n_rows = n_samples,
                 cols = map (\<lambda>name. (name, map (\<lambda>i. Num (random lib name i)) rows))
                          synthetic_columns \<rparr>;
          prices = map (random lib ''price'') rows;
          lo = fold min prices (random lib ''price'' 0);
          hi = fold max prices (random lib ''price'' 0);
          deal_score = map (synthetic_deal_score (random lib) lo hi) rows
      in (columns df, df, of_series deal_score))"

text \<open>
  The head of \<^verbatim>\<open>train_model\<close>: the prepared data, replaced by the synthetic data
  when \<^verbatim>\<open>len(X) < 10\<close>. The first component is what \<^verbatim>\<open>self.feature_columns\<close>
  holds afterwards.
\<close>

definition training_set ::
  "('s, 'm, 'x, 'r) sklearn \<Rightarrow> (frame \<Rightarrow> exn + frame) \<Rightarrow> frame
     \<Rightarrow> error + string list \<times> frame \<times> cell list" where
  "training_set lib create_features df =
     (case prepare_training_data create_features df of
        Inl e \<Rightarrow> Inl e
      | Inr (feature_cols, X, y) \<Rightarrow>
          if n_rows X < 10 then Inr (create_synthetic_training_data lib)
          else Inr (feature_cols, X, y))"

text \<open>
  The rest of \<^verbatim>\<open>train_model\<close>: split, scale, fit, evaluate. The object is returned
  as the code leaves it, also when a step raises.
\<close>

definition fit_model ::
  "('s, 'm, 'x, 'r) sklearn \<Rightarrow> ('s, 'm) deal_score_model \<Rightarrow> frame \<Rightarrow> cell list
     \<Rightarrow> ('s, 'm) deal_score_model \<times> (error + 'r)" where
  "fit_model lib self X y =
     (case train_test_split lib X y of
        Inl e \<Rightarrow> (self, Inl (Raised e))
      | Inr (X_train, X_test, y_train, y_test) \<Rightarrow>
     (case fit_transform lib (StandardScaler lib) X_train of
        Inl e \<Rightarrow> (self\<lparr>scaler := Some (StandardScaler lib)\<rparr>, Inl (Raised e))
      | Inr (scl, X_train_scaled) \<Rightarrow>
     (case transform lib scl X_test of
        Inl e \<Rightarrow> (self\<lparr>scaler := Some scl\<rparr>, Inl (Raised e))
      | Inr X_test_scaled \<Rightarrow>
     (case fit lib (GradientBoostingRegressor lib) X_train_scaled y_train of
        Inl e \<Rightarrow>
          (self\<lparr>scaler := Some scl, model := Some (GradientBoostingRegressor lib)\<rparr>,
           Inl (Raised e))
      | Inr mdl \<Rightarrow>
     (case predict lib mdl X_test_scaled of
        Inl e \<Rightarrow> (self\<lparr>scaler := Some scl, model := Some mdl\<rparr>, Inl (Raised e))
      | Inr y_pred \<Rightarrow>
     (case evaluate lib mdl X_train_scaled y_train y_test y_pred of
        Inl e \<Rightarrow> (self\<lparr>scaler := Some scl, model := Some mdl\<rparr>, Inl (Raised e))
      | Inr metrics \<Rightarrow> (self\<lparr>scaler := Some scl, model := Some mdl\<rparr>, Inr metrics)))))))"

definition train_model ::
  "('s, 'm, 'x, 'r) sklearn \<Rightarrow> (frame \<Rightarrow> exn + frame) \<Rightarrow> ('s, 'm) deal_score_model \<Rightarrow> frame
     \<Rightarrow> ('s, 'm) deal_score_model \<times> (error + 'r)" where
  "train_model lib create_features self df =
     (case training_set lib create_features df of
        Inl e \<Rightarrow> (self, Inl e)
      | Inr (feature_cols, X, y) \<Rightarrow>
          fit_model lib (self\<lparr>feature_columns := Some feature_cols\<rparr>) X y)"

text \<open>
  \<^verbatim>\<open>predict_deal_scores\<close>. \<^verbatim>\<open>df_features[self.feature_columns]\<close> raises
  \<^verbatim>\<open>KeyError\<close> for a recorded column that the engineered frame does not have;
  \<^verbatim>\<open>fillna(0)\<close> then replaces the missing values of the selected columns.
\<close>

definition predict_deal_scores ::
  "('s, 'm, 'x, 'r) sklearn \<Rightarrow> (frame \<Rightarrow> exn + frame) \<Rightarrow> ('s, 'm) deal_score_model \<Rightarrow> frame
     \<Rightarrow> error + real list" where
  "predict_deal_scores lib create_features self df =
     (case model self of
        None \<Rightarrow> Inl Model_not_trained
      | Some mdl \<Rightarrow>
     (case scaler self of
        None \<Rightarrow> Inl Model_not_trained
      | Some scl \<Rightarrow>
     (case create_features df of
        Inl e \<Rightarrow> Inl (Raised e)
      | Inr df_features \<Rightarrow>
     (case (case feature_columns self of
              None \<Rightarrow> Inl (KeyError ''None'')
            | Some names \<Rightarrow> select df_features names) of
        Inl e \<Rightarrow> Inl e
      | Inr selected \<Rightarrow>
     (case transform lib scl (fillna 0 selected) of
        Inl e \<Rightarrow> Inl (Raised e)
      | Inr X_scaled \<Rightarrow>
     (case predict lib mdl X_scaled of
        Inl e \<Rightarrow> Inl (Raised e)
      | Inr scores \<Rightarrow> Inr (map (\<lambda>score. clip score 0 1) scores)))))))"

text \<open>
  The three files of \<^verbatim>\<open>save_model\<close>: each is absent (\<open>None\<close>) or holds the object
  that was dumped.
\<close>

record ('s, 'm) artifacts =
  model_pkl :: "'m option"
  scaler_pkl :: "'s option option"
  info_pkl :: "string list option option"


definition load_model ::
  "('s, 'm) deal_score_model \<Rightarrow> ('s, 'm) artifacts \<Rightarrow> ('s, 'm) deal_score_model \<times> bool" where
  "load_model self disk =
     (case model_pkl disk of
        None \<Rightarrow> (self, False)
      | Some mdl \<Rightarrow>
     (case scaler_pkl disk of
        None \<Rightarrow> (self\<lparr>model := Some mdl\<rparr>, False)
      | Some scl \<Rightarrow>
     (case info_pkl disk of
        None \<Rightarrow> (self\<lparr>model := Some mdl, scaler := scl\<rparr>, False)
      | Some names \<Rightarrow>
          (self\<lparr>model := Some mdl, scaler := scl, feature_columns := names\<rparr>, True))))"

subsection \<open>The retraining job (\<^verbatim>\<open>JobScheduler._run_model_retraining\<close>)\<close>







subsection \<open>The specification's wording, for comparison\<close>

text \<open>
  The distance estimate as the specification words it: an \<^emph>\<open>exact\<close> city match, that
  is, the lowercased location is a key of the city table; the state tier and the defaults
  as in \<^const>\<open>estimate_distance\<close>.
\<close>

definition estimate_distance_exact_city :: "string \<Rightarrow> int" where
  "estimate_distance_exact_city loc =
     (if loc = [] then 500
      else (case map_of city_distances (lower loc) of
              Some distance \<Rightarrow> distance
            | None \<Rightarrow>
                (case first_hit state_distances (lower loc) of
                   Some distance \<Rightarrow> distance
                 | None \<Rightarrow> 300)))"

text \<open>Which scrapers a run called, read off the log.\<close>

definition scrapers_called :: "scrape_log list \<Rightarrow> string list" where
  "scrapers_called logged =
     concat (map (\<lambda>line. case line of Scraping name \<Rightarrow> [name] | _ \<Rightarrow> []) logged)"

subsection \<open>Example data\<close>

text \<open>Concrete listings and collaborators, for the instances below.\<close>

definition example_listing :: "string \<Rightarrow> string \<Rightarrow> real \<Rightarrow> listing" where
  "example_listing site link p =
     \<lparr> platform = site, title = ''LS engine, needs work'', description = '''',
       price = Some p, location = ''Brooklyn, NY'', seller_name = ''Unknown'',
       url = link, image_urls = [], condition_keywords = [''bad_needs work''] \<rparr>"

definition example_scrapers :: "(string \<times> scraper) list" where
  "example_scrapers =
     [(''craigslist'', \<lambda>terms pages. Inr [example_listing ''craigslist'' ''https://c/1'' 500]),
      (''ebay'', \<lambda>terms pages. Inl (Exception ''timed out'')),
      (''facebook'', \<lambda>terms pages. Inr [example_listing ''facebook'' ''https://f/1'' 900])]"

text \<open>
  The two channels as the scheduler's dictionary holds them. The Discord channel is the
  notifier above, which returns a flag in every case.
\<close>

definition discord_channel ::
  "(string \<Rightarrow> listing_row \<Rightarrow> exn + nat) \<Rightarrow> discord_notifier \<Rightarrow> notifier" where
  "discord_channel post self = (\<lambda>deal. Inr (discord_send_hot_deal_alert post self deal))"

text \<open>
  Modelled from the spec: \<^verbatim>\<open>EmailNotifier.send_hot_deal_alert\<close>, whose file
  \<^verbatim>\<open>notifications/email_sender.py\<close> is not among the sources. The specification
  gives a notifier the interface \<^verbatim>\<open>sendHotDealAlert(listing) -> success boolean\<close>:
  the channel answers with its flag.
\<close>

definition email_channel :: "(listing_row \<Rightarrow> bool) \<Rightarrow> notifier" where
  "email_channel send_hot_deal_alert = (\<lambda>deal. Inr (send_hot_deal_alert deal))"

definition example_deal :: listing_row where
  "example_deal = new_row 7 0 (example_listing ''ebay'' ''https://e/7'' 400)"

text \<open>
  A stand-in for scikit-learn in which every call succeeds: scaling changes nothing, and
  the regressor's raw score of a row is the number in the row's first feature. The
  \<open>i\<close>-th random number is \<open>i\<close>.
\<close>

definition example_sklearn :: "(unit, unit, frame, unit) sklearn" where
  "example_sklearn =
     \<lparr> StandardScaler = (),
       fit_transform = (\<lambda>s X. Inr ((), X)),
       transform = (\<lambda>s X. Inr X),
       GradientBoostingRegressor = (),
       fit = (\<lambda>m X y. Inr ()),
       predict = (\<lambda>m X. Inr (case cols X of
                               [] \<Rightarrow> []
                             | (name, col) # rest \<Rightarrow> map (\<lambda>c. case c of Num x \<Rightarrow> x | _ \<Rightarrow> 0) col)),
       train_test_split = (\<lambda>X y. Inr (X, X, y, y)),
       evaluate = (\<lambda>m X y_train y_test y_pred. Inr ()),
       random = (\<lambda>name i. real i) \<rparr>"

definition example_model :: "string list \<Rightarrow> (unit, unit) deal_score_model" where
  "example_model names = \<lparr> model = Some (), scaler = Some (), feature_columns = Some names \<rparr>"

definition example_features :: frame where
  "example_features =
     \<lparr> n_rows = 3,
       cols = [(''price'', [Num (- 5), NaN, Num 1000]),
               (''platform_ebay'', [Num 1, Num 1, Num 1])] \<rparr>"

text \<open>
  A usable training row as the specification words it: the label is present and within
  [0,1], and the price is present and positive.
\<close>

definition usable_as_specified :: "real option \<Rightarrow> real option \<Rightarrow> bool" where
  "usable_as_specified label p =
     (valid_label label \<and> (case p of None \<Rightarrow> False | Some x \<Rightarrow> x > 0))"

text \<open>
  Two engineered training inputs that carry a \<^verbatim>\<open>deal_score\<close> column: ten rows with
  a label and no price, and two rows of which one has a label.
\<close>

definition example_labelled :: frame where
  "example_labelled =
     \<lparr> n_rows = 10,
       cols = [(''price'', [NaN, NaN, NaN, NaN, NaN, NaN, NaN, NaN, NaN, NaN]),
               (''deal_score'', [Num 0.5, Num 0.5, Num 0.5, Num 0.5, Num 0.5,
                                 Num 0.5, Num 0.5, Num 0.5, Num 0.5, Num 0.5])] \<rparr>"

definition example_few :: frame where
  "example_few =
     \<lparr> n_rows = 2,
       cols = [(''price'', [Num 500, Num 700]), (''deal_score'', [Num 0.5, NaN])] \<rparr>"




subsection \<open>Synthetic labels, row by row\<close>









section \<open>Properties\<close>

subsection \<open>Strings\<close>

lemma lower_append: "lower (a @ b) = lower a @ lower b"
  by (simp add: lower_def)

lemma lower_Nil_iff: "lower s = [] \<longleftrightarrow> s = []"
  by (simp add: lower_def)

subsection \<open>The relevance predicate\<close>

lemma list_ex_sublist_iff: "list_ex (\<lambda>t. sublist t s) ts \<longleftrightarrow> (\<exists>t \<in> set ts. sublist t s)"
  by (simp add: list_ex_iff)

lemma boat_motor_excluded:
  assumes "sublist ''boat motor'' (lower ttl)"
  shows "\<not> is_relevant_listing ttl desc"
proof -
  have "sublist ''boat'' ''boat motor''" by code_simp
  then have "sublist ''boat'' (lower ttl)"
    using assms sublist_order.order_trans by blast
  then have "sublist ''boat'' (lower (ttl @ '' '' @ desc))"
    unfolding lower_append by (meson sublist_append)
  then have "list_ex (\<lambda>t. sublist t (lower (ttl @ '' '' @ desc))) exclude_terms"
    by (simp add: exclude_terms_def)
  then show ?thesis
    by (simp add: is_relevant_listing_def Let_def)
qed

text \<open>
  C4. A listing is relevant exactly when its lowercased title and description, joined by
  a blank, contain one of the engine-part terms and none of the exclusion terms. A title
  that contains "boat motor" is rejected whatever else it says; the listing
  "LS engine, needs work" is accepted, and the condition keywords extracted from it
  under the shipped configuration include \<^verbatim>\<open>bad_needs work\<close>.
\<close>

theorem is_relevant_listing_accepts_iff:
  "(is_relevant_listing ttl desc \<longleftrightarrow>
      (\<exists>t \<in> set [''engine'', ''motor'', ''block'', ''head'', ''intake'', ''crank'',
                   ''piston'', ''long block'', ''short block''].
         sublist t (lower (ttl @ '' '' @ desc))) \<and>
      \<not> (\<exists>t \<in> set [''boat'', ''marine'', ''motorcycle'', ''lawn'', ''generator'',
                     ''pump'', ''compressor''].
           sublist t (lower (ttl @ '' '' @ desc))))
   \<and> (sublist ''boat motor'' (lower ttl) \<longrightarrow> \<not> is_relevant_listing ttl desc)
   \<and> is_relevant_listing ''LS engine, needs work'' ''''
   \<and> ''bad_needs work'' \<in> set (extract_condition_keywords Config ''LS engine, needs work'')"
proof (intro conjI)
  show "is_relevant_listing ttl desc \<longleftrightarrow>
      (\<exists>t \<in> set [''engine'', ''motor'', ''block'', ''head'', ''intake'', ''crank'',
                   ''piston'', ''long block'', ''short block''].
         sublist t (lower (ttl @ '' '' @ desc))) \<and>
      \<not> (\<exists>t \<in> set [''boat'', ''marine'', ''motorcycle'', ''lawn'', ''generator'',
                     ''pump'', ''compressor''].
           sublist t (lower (ttl @ '' '' @ desc)))"
    unfolding is_relevant_listing_def Let_def list_ex_sublist_iff engine_terms_def exclude_terms_def
    by (simp only: if_True if_False split: if_split) blast
  show "sublist ''boat motor'' (lower ttl) \<longrightarrow> \<not> is_relevant_listing ttl desc"
    using boat_motor_excluded by blast
  show "is_relevant_listing ''LS engine, needs work'' ''''"
    by code_simp
  show "''bad_needs work'' \<in> set (extract_condition_keywords Config ''LS engine, needs work'')"
    by code_simp
qed

theorem is_relevant_listing_accepts_iff_witness:
  "sublist ''boat motor'' (lower ''Boat Motor 9.9hp'')
   \<and> \<not> is_relevant_listing ''Boat Motor 9.9hp'' ''''
   \<and> (\<exists>t \<in> set [''engine'', ''motor'', ''block'', ''head'', ''intake'', ''crank'',
                   ''piston'', ''long block'', ''short block''].
         sublist t (lower (''Boat Motor 9.9hp'' @ '' '' @ '''')))"
proof -
  have h: "sublist ''boat motor'' (lower ''Boat Motor 9.9hp'')" by code_simp
  have e: "sublist ''motor'' (lower (''Boat Motor 9.9hp'' @ '' '' @ ''''))" by code_simp
  from is_relevant_listing_accepts_iff [of "''Boat Motor 9.9hp''" "''''"]
  have "sublist ''boat motor'' (lower ''Boat Motor 9.9hp'')
        \<longrightarrow> \<not> is_relevant_listing ''Boat Motor 9.9hp'' ''''"
    by blast
  with h e show ?thesis by auto
qed

subsection \<open>The distance estimate\<close>

lemma first_hit_None_iff:
  "first_hit table l = None \<longleftrightarrow> (\<forall>kd \<in> set table. \<not> sublist (fst kd) l)"
  by (induction table l rule: first_hit.induct) auto

lemma first_hit_at:
  "i < length table \<Longrightarrow> sublist (fst (table ! i)) l
     \<Longrightarrow> (\<forall>j<i. \<not> sublist (fst (table ! j)) l)
     \<Longrightarrow> first_hit table l = Some (snd (table ! i))"
proof (induction table l arbitrary: i rule: first_hit.induct)
  case (1 l)
  then show ?case by simp
next
  case (2 key distance table l)
  show ?case
  proof (cases i)
    case 0
    with 2 show ?thesis by simp
  next
    case (Suc k)
    with 2(3,4) have "\<not> sublist key l" by auto
    moreover have "first_hit table l = Some (snd (table ! k))"
      using 2 Suc \<open>\<not> sublist key l\<close> by (intro 2(1)) auto
    ultimately show ?thesis using Suc by simp
  qed
qed

lemma exact_city_match:
  assumes "(k, d) \<in> set city_distances" and "lower loc = k"
  shows "estimate_distance loc = d"
proof -
  have "\<forall>kd \<in> set city_distances.
          fst kd \<noteq> [] \<and> first_hit city_distances (fst kd) = Some (snd kd)"
    by code_simp
  with assms(1) have "k \<noteq> []" and "first_hit city_distances k = Some d" by auto
  with assms(2) show ?thesis
    by (auto simp: estimate_distance_def lower_Nil_iff)
qed

text \<open>
  C9, as amended. The estimate is 500 for the empty location. Otherwise a table entry
  \<^emph>\<open>matches\<close> when its key occurs anywhere in the lowercased location: the estimate is the
  distance of the first matching entry of the city table, in the order of the table;
  without one, the distance of the first matching entry of the state table; without
  either, 300. A location that is exactly a city name (up to case) gets that city's
  distance. \<^verbatim>\<open>is_local\<close> is 1 exactly below 100 miles and \<^verbatim>\<open>is_regional\<close> exactly
  below 300, and 0 otherwise.
\<close>

theorem estimate_distance_tiers:
  "(loc = [] \<longrightarrow> estimate_distance loc = 500)
   \<and> (loc \<noteq> [] \<and> i < length city_distances
        \<and> sublist (fst (city_distances ! i)) (lower loc)
        \<and> (\<forall>j<i. \<not> sublist (fst (city_distances ! j)) (lower loc))
      \<longrightarrow> estimate_distance loc = snd (city_distances ! i))
   \<and> (loc \<noteq> [] \<and> (\<forall>c \<in> set city_distances. \<not> sublist (fst c) (lower loc))
        \<and> i < length state_distances
        \<and> sublist (fst (state_distances ! i)) (lower loc)
        \<and> (\<forall>j<i. \<not> sublist (fst (state_distances ! j)) (lower loc))
      \<longrightarrow> estimate_distance loc = snd (state_distances ! i))
   \<and> (loc \<noteq> [] \<and> (\<forall>c \<in> set city_distances. \<not> sublist (fst c) (lower loc))
        \<and> (\<forall>s \<in> set state_distances. \<not> sublist (fst s) (lower loc))
      \<longrightarrow> estimate_distance loc = 300)
   \<and> ((k, d) \<in> set city_distances \<and> lower loc = k \<longrightarrow> estimate_distance loc = d)
   \<and> estimated_distance (create_location_features loc) = estimate_distance loc
   \<and> is_local (create_location_features loc) = (if estimate_distance loc < 100 then 1 else 0)
   \<and> is_regional (create_location_features loc) = (if estimate_distance loc < 300 then 1 else 0)"
proof (intro conjI impI)
  show "estimate_distance loc = 500" if "loc = []"
    using that by (simp add: estimate_distance_def)
  show "estimate_distance loc = snd (city_distances ! i)"
    if "loc \<noteq> [] \<and> i < length city_distances
        \<and> sublist (fst (city_distances ! i)) (lower loc)
        \<and> (\<forall>j<i. \<not> sublist (fst (city_distances ! j)) (lower loc))"
  proof -
    have "first_hit city_distances (lower loc) = Some (snd (city_distances ! i))"
      using that by (intro first_hit_at) auto
    with that show ?thesis by (simp add: estimate_distance_def)
  qed
  show "estimate_distance loc = snd (state_distances ! i)"
    if "loc \<noteq> [] \<and> (\<forall>c \<in> set city_distances. \<not> sublist (fst c) (lower loc))
        \<and> i < length state_distances
        \<and> sublist (fst (state_distances ! i)) (lower loc)
        \<and> (\<forall>j<i. \<not> sublist (fst (state_distances ! j)) (lower loc))"
  proof -
    have "first_hit city_distances (lower loc) = None"
      using that by (simp add: first_hit_None_iff)
    moreover have "first_hit state_distances (lower loc) = Some (snd (state_distances ! i))"
      using that by (intro first_hit_at) auto
    ultimately show ?thesis using that by (simp add: estimate_distance_def)
  qed
  show "estimate_distance loc = 300"
    if "loc \<noteq> [] \<and> (\<forall>c \<in> set city_distances. \<not> sublist (fst c) (lower loc))
        \<and> (\<forall>s \<in> set state_distances. \<not> sublist (fst s) (lower loc))"
  proof -
    have "first_hit city_distances (lower loc) = None"
      and "first_hit state_distances (lower loc) = None"
      using that by (simp_all add: first_hit_None_iff)
    with that show ?thesis by (simp add: estimate_distance_def)
  qed
  show "estimate_distance loc = d" if "(k, d) \<in> set city_distances \<and> lower loc = k"
    using that exact_city_match by blast
qed (simp_all add: create_location_features_def Let_def)

theorem estimate_distance_tiers_witness:
  "''Brooklyn, NY'' \<noteq> [] \<and> 3 < length city_distances
   \<and> sublist (fst (city_distances ! 3)) (lower ''Brooklyn, NY'')
   \<and> \<not> sublist (fst (city_distances ! 0)) (lower ''Brooklyn, NY'')
   \<and> \<not> sublist (fst (city_distances ! 1)) (lower ''Brooklyn, NY'')
   \<and> \<not> sublist (fst (city_distances ! 2)) (lower ''Brooklyn, NY'')
   \<and> estimate_distance ''Brooklyn, NY'' = snd (city_distances ! 3)
   \<and> snd (city_distances ! 3) = 10"
proof -
  have a: "''Brooklyn, NY'' \<noteq> [] \<and> 3 < length city_distances
        \<and> sublist (fst (city_distances ! 3)) (lower ''Brooklyn, NY'')"
    by code_simp
  have n: "\<not> sublist (fst (city_distances ! 0)) (lower ''Brooklyn, NY'')
        \<and> \<not> sublist (fst (city_distances ! 1)) (lower ''Brooklyn, NY'')
        \<and> \<not> sublist (fst (city_distances ! 2)) (lower ''Brooklyn, NY'')"
    by code_simp
  have b: "\<forall>j<3. \<not> sublist (fst (city_distances ! j)) (lower ''Brooklyn, NY'')"
  proof (intro allI impI)
    fix j :: nat assume "j < 3"
    then consider "j = 0" | "j = 1" | "j = 2" by linarith
    then show "\<not> sublist (fst (city_distances ! j)) (lower ''Brooklyn, NY'')"
      using n by cases simp_all
  qed
  have c: "snd (city_distances ! 3) = 10" by code_simp
  from estimate_distance_tiers [of "''Brooklyn, NY''" 3] a b
  have "estimate_distance ''Brooklyn, NY'' = snd (city_distances ! 3)" by blast
  with a n c show ?thesis by blast
qed

text \<open>
  The location "Brooklyn, NY" is not a key of the city table, and the state table
  answers 100 for it; the code answers 10, from the city key that occurs in it.
\<close>

theorem estimate_distance_exact_city_counterexample:
  "estimate_distance ''Brooklyn, NY'' = 10
   \<and> map_of city_distances (lower ''Brooklyn, NY'') = None
   \<and> estimate_distance_exact_city ''Brooklyn, NY'' = 100"
  by code_simp

subsection \<open>Scraping all platforms\<close>

lemma scrape_loop_eq:
  "scrape_loop cfg scrapers (logged, acc) =
     (logged @ concat (map (\<lambda>(name, scraper).
          case scraper (SEARCH_TERMS cfg) (MAX_PAGES_PER_SITE cfg) of
            Inr ls \<Rightarrow> [Scraping name, Found (length ls) name]
          | Inl e \<Rightarrow> [Scraping name, Error_scraping name e]) scrapers),
      acc @ concat (map (\<lambda>(name, scraper).
          case scraper (SEARCH_TERMS cfg) (MAX_PAGES_PER_SITE cfg) of
            Inr ls \<Rightarrow> ls
          | Inl e \<Rightarrow> []) scrapers))"
proof (induction scrapers arbitrary: logged acc)
  case Nil
  then show ?case by simp
next
  case (Cons a scrapers)
  obtain name scraper where a: "a = (name, scraper)" by (cases a)
  show ?case
    by (cases "scraper (SEARCH_TERMS cfg) (MAX_PAGES_PER_SITE cfg)") (simp_all add: a Cons.IH)
qed

lemma scrape_all_listings:
  "snd (scrape_all_platforms cfg scrapers) =
     concat (map (\<lambda>(name, scraper).
       case scraper (SEARCH_TERMS cfg) (MAX_PAGES_PER_SITE cfg) of
         Inr ls \<Rightarrow> ls
       | Inl e \<Rightarrow> []) scrapers)"
  by (simp add: scrape_all_platforms_def scrape_loop_eq)

lemma scrapers_called_append:
  "scrapers_called (a @ b) = scrapers_called a @ scrapers_called b"
  by (simp add: scrapers_called_def)

lemma scrape_all_called:
  "scrapers_called (fst (scrape_all_platforms cfg scrapers)) = map fst scrapers"
proof -
  have "scrapers_called (concat (map (\<lambda>(name, scraper).
          case scraper (SEARCH_TERMS cfg) (MAX_PAGES_PER_SITE cfg) of
            Inr ls \<Rightarrow> [Scraping name, Found (length ls) name]
          | Inl e \<Rightarrow> [Scraping name, Error_scraping name e]) scrapers)) = map fst scrapers"
    by (induction scrapers)
       (auto simp: scrapers_called_def split: sum.splits)
  then show ?thesis
    by (simp add: scrape_all_platforms_def scrape_loop_eq scrapers_called_append)
       (simp add: scrapers_called_def)
qed

text \<open>
  C7. \<^verbatim>\<open>scrape_all_platforms\<close> calls every registered scraper, in the order of the
  registry, with the configured search terms, and returns the concatenation of what the
  scrapers returned, a scraper that raised counting as the empty list. So a scraper that
  raises takes nothing from the listings gathered before it and does not stop those
  after it. The function has no path that raises: its result is a list in every case.
\<close>

theorem scrape_all_platforms_isolates_failures:
  "scrapers_called (fst (scrape_all_platforms cfg scrapers)) = map fst scrapers
   \<and> snd (scrape_all_platforms cfg scrapers) =
       concat (map (\<lambda>(name, scraper).
         case scraper (SEARCH_TERMS cfg) (MAX_PAGES_PER_SITE cfg) of
           Inr ls \<Rightarrow> ls
         | Inl e \<Rightarrow> []) scrapers)
   \<and> (failing (SEARCH_TERMS cfg) (MAX_PAGES_PER_SITE cfg) = Inl e \<longrightarrow>
        snd (scrape_all_platforms cfg (before @ [(name, failing)] @ after)) =
          snd (scrape_all_platforms cfg before) @ snd (scrape_all_platforms cfg after)
        \<and> scrapers_called (fst (scrape_all_platforms cfg (before @ [(name, failing)] @ after))) =
            map fst before @ [name] @ map fst after)"
  by (simp add: scrape_all_called scrape_all_listings)

theorem scrape_all_platforms_isolates_failures_witness:
  "snd (example_scrapers ! 1) (SEARCH_TERMS Config) (MAX_PAGES_PER_SITE Config)
     = Inl (Exception ''timed out'')
   \<and> snd (scrape_all_platforms Config example_scrapers) =
       [example_listing ''craigslist'' ''https://c/1'' 500,
        example_listing ''facebook'' ''https://f/1'' 900]
   \<and> scrapers_called (fst (scrape_all_platforms Config example_scrapers)) =
       [''craigslist'', ''ebay'', ''facebook'']"
proof -
  let ?failing = "\<lambda>(terms :: string list) (pages :: nat). (Inl (Exception ''timed out'') :: exn + listing list)"
  let ?before = "[(''craigslist'', (\<lambda>terms pages. Inr [example_listing ''craigslist'' ''https://c/1'' 500]) :: scraper)]"
  let ?after = "[(''facebook'', (\<lambda>terms pages. Inr [example_listing ''facebook'' ''https://f/1'' 900]) :: scraper)]"
  have split: "example_scrapers = ?before @ [(''ebay'', ?failing)] @ ?after"
    by (simp add: example_scrapers_def)
  have fails: "?failing (SEARCH_TERMS Config) (MAX_PAGES_PER_SITE Config) = Inl (Exception ''timed out'')"
    by simp
  from scrape_all_platforms_isolates_failures
         [of Config "?before @ [(''ebay'', ?failing)] @ ?after" ?failing "Exception ''timed out''"
             ?before "''ebay''" ?after] fails
  have "snd (scrape_all_platforms Config (?before @ [(''ebay'', ?failing)] @ ?after)) =
          snd (scrape_all_platforms Config ?before) @ snd (scrape_all_platforms Config ?after)
        \<and> scrapers_called (fst (scrape_all_platforms Config (?before @ [(''ebay'', ?failing)] @ ?after))) =
            map fst ?before @ [''ebay''] @ map fst ?after"
    by blast
  moreover have "snd (scrape_all_platforms Config ?before) = [example_listing ''craigslist'' ''https://c/1'' 500]"
    and "snd (scrape_all_platforms Config ?after) = [example_listing ''facebook'' ''https://f/1'' 900]"
    by (simp_all add: scrape_all_listings)
  moreover have "snd (example_scrapers ! 1) (SEARCH_TERMS Config) (MAX_PAGES_PER_SITE Config)
     = Inl (Exception ''timed out'')"
    by (simp add: example_scrapers_def)
  ultimately show ?thesis
    unfolding split by simp
qed

subsection \<open>Inserting listings\<close>

lemma url_new_row [simp]: "url (new_row rowid now l) = url l"
  by (simp add: new_row_def listing.defs)










subsection \<open>Hot-deal notifications\<close>

lemma discord_send_hot_deal_alert_iff:
  "discord_send_hot_deal_alert post self deal \<longleftrightarrow>
     (\<exists>u. webhook_url self = Some u \<and> u \<noteq> [] \<and> post u deal = Inr 204)"
  by (auto simp: discord_send_hot_deal_alert_def split: option.splits sum.splits)

text \<open>
  What the single \<^verbatim>\<open>try\<close> block does with a notifier that raises instead of
  returning its flag: the exception is caught, and the block is left.
\<close>

lemma send_hot_deal_notifications_first_raises:
  "notifiers ''discord'' = Some send \<Longrightarrow> send deal = Inl e
     \<Longrightarrow> send_hot_deal_notifications notifiers db deal = (db, [''discord''], Some e)"
  by (simp add: send_hot_deal_notifications_def notify_channel_def)

lemma send_hot_deal_notifications_second_raises:
  "notifiers ''discord'' = Some send \<Longrightarrow> send deal = Inr ok
     \<Longrightarrow> notifiers ''email'' = Some send' \<Longrightarrow> send' deal = Inl e
     \<Longrightarrow> send_hot_deal_notifications notifiers db deal =
           (log_notification db (listing_id deal) ''discord'' ok, [''discord'', ''email''], Some e)"
  by (simp add: send_hot_deal_notifications_def notify_channel_def)

text \<open>
  C8. With the Discord and the e-mail channel both configured, a hot deal is sent to
  both, Discord first, whatever the first one answers; each answer is appended to the
  notification log as a row of its own, with the deal's id, the channel's name and the
  flag the channel returned. The Discord flag is true exactly when a webhook URL is
  configured and the post is answered with status 204: any other answer and any
  exception is a failure and is logged as \<^verbatim>\<open>success = False\<close>. Nothing is raised, so
  the cycle goes on.
\<close>

theorem hot_deal_notifications_reach_every_channel:
  "notifiers ''discord'' = Some (discord_channel post discord)
     \<and> notifiers ''email'' = Some (email_channel email_send)
   \<longrightarrow>
     send_hot_deal_notifications notifiers db deal =
       (db\<lparr>notifications := notifications db @
            [\<lparr> notified_listing_id = listing_id deal, notification_type = ''discord'',
               success = discord_send_hot_deal_alert post discord deal \<rparr>,
             \<lparr> notified_listing_id = listing_id deal, notification_type = ''email'',
               success = email_send deal \<rparr>]\<rparr>,
        [''discord'', ''email''], None)
     \<and> (discord_send_hot_deal_alert post discord deal \<longleftrightarrow>
          (\<exists>u. webhook_url discord = Some u \<and> u \<noteq> [] \<and> post u deal = Inr 204))"
  by (auto simp: send_hot_deal_notifications_def notify_channel_def discord_channel_def
      email_channel_def log_notification_def discord_send_hot_deal_alert_iff)

theorem hot_deal_notifications_reach_every_channel_witness:
  "[''discord'' \<mapsto> discord_channel (\<lambda>u d. Inl (Exception ''connection refused''))
        \<lparr> webhook_url = Some ''https://discord/hook'' \<rparr>,
    ''email'' \<mapsto> email_channel (\<lambda>d. True)] ''discord''
     = Some (discord_channel (\<lambda>u d. Inl (Exception ''connection refused''))
        \<lparr> webhook_url = Some ''https://discord/hook'' \<rparr>)
   \<and> [''discord'' \<mapsto> discord_channel (\<lambda>u d. Inl (Exception ''connection refused''))
        \<lparr> webhook_url = Some ''https://discord/hook'' \<rparr>,
      ''email'' \<mapsto> email_channel (\<lambda>d. True)] ''email''
     = Some (email_channel (\<lambda>d. True))
   \<and> send_hot_deal_notifications
       [''discord'' \<mapsto> discord_channel (\<lambda>u d. Inl (Exception ''connection refused''))
          \<lparr> webhook_url = Some ''https://discord/hook'' \<rparr>,
        ''email'' \<mapsto> email_channel (\<lambda>d. True)]
       init_database example_deal =
       (init_database\<lparr>notifications :=
            [\<lparr> notified_listing_id = 7, notification_type = ''discord'', success = False \<rparr>,
             \<lparr> notified_listing_id = 7, notification_type = ''email'', success = True \<rparr>]\<rparr>,
        [''discord'', ''email''], None)"
proof -
  let ?post = "\<lambda>(u :: string) (d :: listing_row). (Inl (Exception ''connection refused'') :: exn + nat)"
  let ?discord = "\<lparr> webhook_url = Some ''https://discord/hook'' \<rparr>"
  let ?ns = "[''discord'' \<mapsto> discord_channel ?post ?discord,
              ''email'' \<mapsto> email_channel (\<lambda>d. True)]"
  have a: "?ns ''discord'' = Some (discord_channel ?post ?discord)
           \<and> ?ns ''email'' = Some (email_channel (\<lambda>d. True))"
    by simp
  have b: "\<not> discord_send_hot_deal_alert ?post ?discord example_deal"
    by (simp add: discord_send_hot_deal_alert_def)
  have c: "listing_id example_deal = 7"
    by (simp add: example_deal_def new_row_def listing.defs listing_row.defs)
  from hot_deal_notifications_reach_every_channel
         [of ?ns ?post ?discord "\<lambda>d. True" init_database example_deal] a
  have "send_hot_deal_notifications ?ns init_database example_deal =
       (init_database\<lparr>notifications := notifications init_database @
            [\<lparr> notified_listing_id = listing_id example_deal, notification_type = ''discord'',
               success = discord_send_hot_deal_alert ?post ?discord example_deal \<rparr>,
             \<lparr> notified_listing_id = listing_id example_deal, notification_type = ''email'',
               success = True \<rparr>]\<rparr>,
        [''discord'', ''email''], None)"
    by blast
  with a b c show ?thesis
    by (simp add: init_database_def)
qed

subsection \<open>Prediction\<close>

lemma clip_unit: "0 \<le> clip x 0 1 \<and> clip x 0 1 \<le> 1"
  by (simp add: clip_def)

lemma select_columns_present:
  "set names \<subseteq> fst ` set cs
     \<Longrightarrow> select_columns cs names = Inr (map (\<lambda>n. (n, the (map_of cs n))) names)"
proof (induction names)
  case Nil
  then show ?case by simp
next
  case (Cons n names)
  then obtain col where "map_of cs n = Some col"
    by (metis (no_types, opaque_lifting) list.set_intros(1) map_of_eq_None_iff not_Some_eq subsetD)
  with Cons show ?case by simp
qed

lemma select_columns_missing:
  "\<not> set names \<subseteq> fst ` set cs
     \<Longrightarrow> \<exists>n \<in> set names. n \<notin> fst ` set cs \<and> select_columns cs names = Inl (KeyError n)"
proof (induction names)
  case Nil
  then show ?case by simp
next
  case (Cons n names)
  show ?case
  proof (cases "map_of cs n")
    case None
    then have "n \<notin> fst ` set cs" by (simp add: map_of_eq_None_iff)
    with None show ?thesis by auto
  next
    case (Some col)
    then have "n \<in> fst ` set cs"
      by (metis map_of_eq_None_iff option.distinct(1))
    with Cons.prems have "\<not> set names \<subseteq> fst ` set cs" by auto
    from Cons.IH [OF this] Some show ?thesis by auto
  qed
qed

lemma select_columns_error:
  "select_columns cs names = Inl e \<Longrightarrow> \<exists>n. e = KeyError n"
  by (induction names arbitrary: e) (auto split: option.splits sum.splits)

lemma select_error: "select df names = Inl e \<Longrightarrow> \<exists>n. e = KeyError n"
  by (auto simp: select_def dest: select_columns_error split: sum.splits)

lemma select_present:
  "set names \<subseteq> set (columns df)
     \<Longrightarrow> select df names = Inr (df\<lparr>cols := map (\<lambda>n. (n, the (map_of (cols df) n))) names\<rparr>)"
  by (simp add: select_def columns_def select_columns_present)

lemma select_missing:
  "\<not> set names \<subseteq> set (columns df)
     \<Longrightarrow> \<exists>n \<in> set names. n \<notin> set (columns df) \<and> select df names = Inl (KeyError n)"
  using select_columns_missing [of names "cols df"]
  by (auto simp: select_def columns_def)

lemma columns_fillna: "columns (fillna v df) = columns df"
  by (auto simp: columns_def fillna_def)

lemma map_of_fillna:
  "map_of (cols (fillna v df)) n = map_option (map (fill_cell v)) (map_of (cols df) n)"
proof -
  have "map_of (map (\<lambda>(name, col). (name, map (fill_cell v) col)) cs) n
          = map_option (map (fill_cell v)) (map_of cs n)" for cs
    by (induction cs) auto
  then show ?thesis by (simp add: fillna_def)
qed

lemma map_of_selected:
  "n \<in> set names \<Longrightarrow> map_of (map (\<lambda>n. (n, the (map_of cs n))) names) n = Some (the (map_of cs n))"
  by (induction names) auto

text \<open>
  C3. \<^verbatim>\<open>predict_deal_scores\<close> raises its "model not trained yet" error exactly when
  the object holds no model or no scaler. Whenever it returns scores, each lies in
  [0,1]: when the model and the scaler are there and the steps before it succeed, the
  result is the regressor's raw output with every entry moved into [0,1], however
  large or small the entry is.
\<close>

theorem predict_untrained_iff_and_clipped:
  "(predict_deal_scores lib cf self df = Inl Model_not_trained
      \<longleftrightarrow> model self = None \<or> scaler self = None)
   \<and> (predict_deal_scores lib cf self df = Inr scores
        \<longrightarrow> (\<forall>score \<in> set scores. 0 \<le> score \<and> score \<le> 1))
   \<and> (model self = Some mdl \<and> scaler self = Some scl \<and> feature_columns self = Some names
        \<and> cf df = Inr df_features \<and> select df_features names = Inr selected
        \<and> transform lib scl (fillna 0 selected) = Inr X_scaled
        \<and> predict lib mdl X_scaled = Inr raw
      \<longrightarrow> predict_deal_scores lib cf self df = Inr (map (\<lambda>x. min 1 (max 0 x)) raw))"
proof (intro conjI impI)
  show "predict_deal_scores lib cf self df = Inl Model_not_trained
      \<longleftrightarrow> model self = None \<or> scaler self = None"
    by (auto simp: predict_deal_scores_def dest: select_error split: option.splits sum.splits)
  show "\<forall>score \<in> set scores. 0 \<le> score \<and> score \<le> 1"
    if "predict_deal_scores lib cf self df = Inr scores"
    using that
    by (auto simp: predict_deal_scores_def clip_unit split: option.splits sum.splits)
  show "predict_deal_scores lib cf self df = Inr (map (\<lambda>x. min 1 (max 0 x)) raw)"
    if "model self = Some mdl \<and> scaler self = Some scl \<and> feature_columns self = Some names
        \<and> cf df = Inr df_features \<and> select df_features names = Inr selected
        \<and> transform lib scl (fillna 0 selected) = Inr X_scaled
        \<and> predict lib mdl X_scaled = Inr raw"
    using that by (simp add: predict_deal_scores_def clip_def)
qed

theorem predict_untrained_iff_and_clipped_witness:
  "predict_deal_scores example_sklearn Inr (example_model [''price'']) example_features
     = Inr [0, 0, 1]
   \<and> predict example_sklearn ()
       (fillna 0 \<lparr> n_rows = 3, cols = [(''price'', [Num (- 5), NaN, Num 1000])] \<rparr>)
     = Inr [- 5, 0, 1000]
   \<and> predict_deal_scores example_sklearn Inr new_deal_score_model example_features
     = Inl Model_not_trained"
proof -
  let ?X = "\<lparr> n_rows = 3, cols = [(''price'', [Num (- 5), NaN, Num 1000])] \<rparr>"
  have a: "model (example_model [''price'']) = Some () \<and> scaler (example_model [''price'']) = Some ()
        \<and> feature_columns (example_model [''price'']) = Some [''price'']
        \<and> Inr example_features = (Inr example_features :: exn + frame)
        \<and> select example_features [''price''] = Inr ?X
        \<and> transform example_sklearn () (fillna 0 ?X) = Inr (fillna 0 ?X)
        \<and> predict example_sklearn () (fillna 0 ?X) = Inr [- 5, 0, 1000]"
    by (simp add: example_model_def example_features_def select_def example_sklearn_def
        fillna_def fill_cell_def)
  from predict_untrained_iff_and_clipped
         [of example_sklearn Inr "example_model [''price'']" example_features _ "()" "()"
             "[''price'']" example_features ?X "fillna 0 ?X" "[- 5, 0, 1000]"] a
  have "predict_deal_scores example_sklearn Inr (example_model [''price'']) example_features
          = Inr (map (\<lambda>x. min 1 (max 0 x)) [- 5, 0, 1000])"
    by blast
  moreover
  from predict_untrained_iff_and_clipped
         [of example_sklearn Inr new_deal_score_model example_features]
  have "predict_deal_scores example_sklearn Inr new_deal_score_model example_features
          = Inl Model_not_trained"
    by (simp add: new_deal_score_model_def)
  ultimately show ?thesis using a by simp
qed

text \<open>
  C2, as amended. For a trained model and the engineered features of an input batch:
  when every recorded feature column is a column of the engineered features, the frame
  handed to the scaler has exactly the recorded columns, in the recorded order, each
  with the cells of the engineered column and 0 in place of every missing value; when
  a recorded column is not among the engineered columns, the prediction fails with
  \<^verbatim>\<open>KeyError\<close> for such a column.
\<close>

theorem predict_selects_recorded_columns:
  "model self = Some mdl \<and> scaler self = Some scl \<and> feature_columns self = Some names
     \<and> cf df = Inr df_features
   \<longrightarrow>
     (set names \<subseteq> set (columns df_features) \<longrightarrow>
        (\<exists>X. X = fillna 0 (df_features\<lparr>cols := map (\<lambda>n. (n, the (map_of (cols df_features) n))) names\<rparr>)
           \<and> columns X = names
           \<and> (\<forall>n \<in> set names.
                 map_of (cols X) n = map_option (map (fill_cell 0)) (map_of (cols df_features) n))
           \<and> predict_deal_scores lib cf self df =
               (case transform lib scl X of
                  Inl e \<Rightarrow> Inl (Raised e)
                | Inr X_scaled \<Rightarrow>
                    (case predict lib mdl X_scaled of
                       Inl e \<Rightarrow> Inl (Raised e)
                     | Inr scores \<Rightarrow> Inr (map (\<lambda>score. clip score 0 1) scores)))))
     \<and> (\<not> set names \<subseteq> set (columns df_features) \<longrightarrow>
          (\<exists>n \<in> set names. n \<notin> set (columns df_features)
             \<and> predict_deal_scores lib cf self df = Inl (KeyError n)))
     \<and> fill_cell 0 NaN = Num 0 \<and> fill_cell 0 (Num x) = Num x \<and> fill_cell 0 (Str s) = Str s"
proof (intro impI conjI)
  assume loaded: "model self = Some mdl \<and> scaler self = Some scl
     \<and> feature_columns self = Some names \<and> cf df = Inr df_features"
  show "\<exists>X. X = fillna 0 (df_features\<lparr>cols := map (\<lambda>n. (n, the (map_of (cols df_features) n))) names\<rparr>)
           \<and> columns X = names
           \<and> (\<forall>n \<in> set names.
                 map_of (cols X) n = map_option (map (fill_cell 0)) (map_of (cols df_features) n))
           \<and> predict_deal_scores lib cf self df =
               (case transform lib scl X of
                  Inl e \<Rightarrow> Inl (Raised e)
                | Inr X_scaled \<Rightarrow>
                    (case predict lib mdl X_scaled of
                       Inl e \<Rightarrow> Inl (Raised e)
                     | Inr scores \<Rightarrow> Inr (map (\<lambda>score. clip score 0 1) scores)))"
    if present: "set names \<subseteq> set (columns df_features)"
  proof -
    let ?S = "df_features\<lparr>cols := map (\<lambda>n. (n, the (map_of (cols df_features) n))) names\<rparr>"
    have sel: "select df_features names = Inr ?S"
      using present by (rule select_present)
    have c: "columns (fillna 0 ?S) = names"
      by (simp add: columns_fillna) (simp add: columns_def comp_def)
    have m: "map_of (cols (fillna 0 ?S)) n = map_option (map (fill_cell 0)) (map_of (cols df_features) n)"
      if "n \<in> set names" for n
    proof -
      from that present have "n \<in> fst ` set (cols df_features)" by (auto simp: columns_def)
      then obtain col where "map_of (cols df_features) n = Some col"
        by (metis map_of_eq_None_iff not_Some_eq)
      with that show ?thesis by (simp add: map_of_fillna map_of_selected)
    qed
    have "predict_deal_scores lib cf self df =
               (case transform lib scl (fillna 0 ?S) of
                  Inl e \<Rightarrow> Inl (Raised e)
                | Inr X_scaled \<Rightarrow>
                    (case predict lib mdl X_scaled of
                       Inl e \<Rightarrow> Inl (Raised e)
                     | Inr scores \<Rightarrow> Inr (map (\<lambda>score. clip score 0 1) scores)))"
      using loaded sel by (simp add: predict_deal_scores_def)
    with c m show ?thesis by blast
  qed
  show "\<exists>n \<in> set names. n \<notin> set (columns df_features)
             \<and> predict_deal_scores lib cf self df = Inl (KeyError n)"
    if "\<not> set names \<subseteq> set (columns df_features)"
  proof -
    from select_missing [OF that] obtain n where
      "n \<in> set names" "n \<notin> set (columns df_features)" "select df_features names = Inl (KeyError n)"
      by blast
    with loaded show ?thesis by (auto simp: predict_deal_scores_def)
  qed
qed (simp_all add: fill_cell_def)


theorem predict_selects_recorded_columns_witness:
  "model (example_model [''platform_ebay'', ''price'']) = Some ()
   \<and> scaler (example_model [''platform_ebay'', ''price'']) = Some ()
   \<and> feature_columns (example_model [''platform_ebay'', ''price'']) = Some [''platform_ebay'', ''price'']
   \<and> set [''platform_ebay'', ''price''] \<subseteq> set (columns example_features)
   \<and> predict_deal_scores example_sklearn Inr (example_model [''platform_ebay'', ''price''])
        example_features = Inr [1, 1, 1]
   \<and> fillna 0 (example_features\<lparr>cols :=
         map (\<lambda>n. (n, the (map_of (cols example_features) n))) [''platform_ebay'', ''price'']\<rparr>)
       = \<lparr> n_rows = 3,
           cols = [(''platform_ebay'', [Num 1, Num 1, Num 1]),
                   (''price'', [Num (- 5), Num 0, Num 1000])] \<rparr>"
proof -
  let ?m = "example_model [''platform_ebay'', ''price'']"
  let ?X = "fillna 0 (example_features\<lparr>cols :=
         map (\<lambda>n. (n, the (map_of (cols example_features) n))) [''platform_ebay'', ''price'']\<rparr>)"
  have a: "model ?m = Some () \<and> scaler ?m = Some ()
        \<and> feature_columns ?m = Some [''platform_ebay'', ''price'']
        \<and> Inr example_features = (Inr example_features :: exn + frame)"
    by (simp add: example_model_def)
  have b: "set [''platform_ebay'', ''price''] \<subseteq> set (columns example_features)"
    by (simp add: example_features_def columns_def)
  have c: "?X = \<lparr> n_rows = 3,
           cols = [(''platform_ebay'', [Num 1, Num 1, Num 1]),
                   (''price'', [Num (- 5), Num 0, Num 1000])] \<rparr>"
    by (simp add: example_features_def fillna_def fill_cell_def)
  from predict_selects_recorded_columns
         [of ?m "()" "()" "[''platform_ebay'', ''price'']" Inr example_features example_features
             example_sklearn] a b
  have "predict_deal_scores example_sklearn Inr ?m example_features =
               (case transform example_sklearn () ?X of
                  Inl e \<Rightarrow> Inl (Raised e)
                | Inr X_scaled \<Rightarrow>
                    (case predict example_sklearn () X_scaled of
                       Inl e \<Rightarrow> Inl (Raised e)
                     | Inr scores \<Rightarrow> Inr (map (\<lambda>score. clip score 0 1) scores)))"
    by blast
  then have "predict_deal_scores example_sklearn Inr ?m example_features = Inr [1, 1, 1]"
    unfolding c by (simp add: example_sklearn_def clip_def)
  with a b c show ?thesis by simp
qed

text \<open>
  A model that recorded an indicator column for a platform which the batch at hand does
  not mention (\<^verbatim>\<open>_create_platform_features\<close> adds a column \<^verbatim>\<open>platform_<name>\<close>
  only for the platforms of the batch): the prediction fails.
\<close>

theorem predict_missing_column_counterexample:
  "set (columns example_features) = {''price'', ''platform_ebay''}
   \<and> predict_deal_scores example_sklearn Inr
       (example_model [''price'', ''platform_ebay'', ''platform_craigslist'']) example_features
     = Inl (KeyError ''platform_craigslist'')"
  by (auto simp: predict_deal_scores_def example_model_def example_features_def
      example_sklearn_def select_def columns_def)

subsection \<open>Training\<close>

lemma floats_length: "floats cs = Inr vs \<Longrightarrow> length vs = length cs"
  by (induction cs arbitrary: vs) (auto split: cell.splits sum.splits)

lemma n_rows_mask_rows: "n_rows (mask_rows msk df) = length (filter id msk)"
  by (simp add: mask_rows_def)

lemma filter_id_map: "filter id (map f xs) = map f (filter f xs)"
  by (induction xs) auto

lemma getitem_eq: "getitem df name = (case map_of (cols df) name of None \<Rightarrow> Inl (KeyError name) | Some col \<Rightarrow> Inr col)"
  by (simp add: getitem_def)

lemma in_columns_iff: "name \<in> set (columns df) \<longleftrightarrow> map_of (cols df) name \<noteq> None"
  by (simp add: columns_def map_of_eq_None_iff)

lemma prepare_with_labels:
  assumes "cf df = Inr F" and "map_of (cols F) ''deal_score'' = Some ycol"
      and "floats ycol = Inr labels"
  shows "prepare_training_data cf df =
           Inr (filter (\<lambda>col. col \<notin> set exclude_cols) (columns F),
                mask_rows (map valid_label labels)
                  (fillna 0 (F\<lparr>cols := map (\<lambda>n. (n, the (map_of (cols F) n)))
                      (filter (\<lambda>col. col \<notin> set exclude_cols) (columns F))\<rparr>)),
                masked (map valid_label labels) ycol)"
proof -
  have "''deal_score'' \<in> set (columns F)"
    using assms(2) by (simp add: in_columns_iff)
  moreover have "select F (filter (\<lambda>col. col \<notin> set exclude_cols) (columns F)) =
      Inr (F\<lparr>cols := map (\<lambda>n. (n, the (map_of (cols F) n)))
                      (filter (\<lambda>col. col \<notin> set exclude_cols) (columns F))\<rparr>)"
    by (intro select_present) auto
  ultimately show ?thesis
    using assms by (simp add: prepare_training_data_def getitem_def Let_def)
qed


lemma fit_model_succeeds:
  "train_test_split lib X y = Inr (X_train, X_test, y_train, y_test)
     \<Longrightarrow> fit_transform lib (StandardScaler lib) X_train = Inr (scl, X_train_scaled)
     \<Longrightarrow> transform lib scl X_test = Inr X_test_scaled
     \<Longrightarrow> fit lib (GradientBoostingRegressor lib) X_train_scaled y_train = Inr mdl
     \<Longrightarrow> predict lib mdl X_test_scaled = Inr y_pred
     \<Longrightarrow> evaluate lib mdl X_train_scaled y_train y_test y_pred = Inr metrics
     \<Longrightarrow> fit_model lib self X y = (self\<lparr>scaler := Some scl, model := Some mdl\<rparr>, Inr metrics)"
  by (simp add: fit_model_def)

lemma synthetic_deal_score_unit:
  "synthetic_deal_score rnd lo hi i = Some v \<Longrightarrow> 0 \<le> v \<and> v \<le> 1"
  using clip_unit by (auto simp: synthetic_deal_score_def split: if_splits)

lemma synthetic_shape:
  "create_synthetic_training_data lib = (names, SX, Sy)
     \<Longrightarrow> names = synthetic_columns \<and> length names = 21 \<and> columns SX = synthetic_columns
         \<and> n_rows SX = 1000
         \<and> (\<forall>c \<in> set (cols SX). length (snd c) = 1000)
         \<and> length Sy = 1000
         \<and> (\<forall>c \<in> set Sy. c = NaN \<or> (\<exists>v. c = Num v \<and> 0 \<le> v \<and> v \<le> 1))"
proof -
  assume a: "create_synthetic_training_data lib = (names, SX, Sy)"
  have l: "length synthetic_columns = 21" by (simp add: synthetic_columns_def)
  from a have n: "names = synthetic_columns" and c: "columns SX = synthetic_columns"
    and r: "n_rows SX = 1000" and ly: "length Sy = 1000"
    by (auto simp: create_synthetic_training_data_def Let_def columns_def comp_def
        n_samples_def of_series_def)
  from a have cl: "\<forall>c \<in> set (cols SX). length (snd c) = 1000"
    by (auto simp: create_synthetic_training_data_def Let_def n_samples_def)
  have "c = NaN \<or> (\<exists>v. c = Num v \<and> 0 \<le> v \<and> v \<le> 1)" if "c \<in> set Sy" for c
  proof -
    from a that obtain i lo hi where "c = (case synthetic_deal_score (random lib) lo hi i of
        None \<Rightarrow> NaN | Some x \<Rightarrow> Num x)"
      by (auto simp: create_synthetic_training_data_def Let_def of_series_def)
    then show ?thesis
      using synthetic_deal_score_unit [of "random lib" lo hi i]
      by (cases "synthetic_deal_score (random lib) lo hi i") auto
  qed
  then have "\<forall>c \<in> set Sy. c = NaN \<or> (\<exists>v. c = Num v \<and> 0 \<le> v \<and> v \<le> 1)" by blast
  with n c r ly cl l show ?thesis by simp
qed


text \<open>
  C6, as amended. \<^verbatim>\<open>train_model\<close> counts the rows that
  \<^verbatim>\<open>prepare_training_data\<close> keeps: the rows whose label is present and within
  [0,1] (the price of a row is not looked at). With fewer than 10 such rows it trains on
  the synthetic set instead and records the synthetic columns; with 10 or more it
  trains on the prepared rows. The synthetic set has 1000 rows in 21 columns and 1000
  labels, each within [0,1] (or \<^verbatim>\<open>NaN\<close> when all drawn prices are equal). Training
  returns its metrics and leaves a model and a scaler in the object whenever the
  library's split, fit, prediction and evaluation go through.
\<close>

theorem train_model_falls_back_below_ten_rows:
  "(prepare_training_data cf df = Inr (feature_cols, X, y) \<and> n_rows X < 10 \<longrightarrow>
      training_set lib cf df = Inr (create_synthetic_training_data lib)
      \<and> train_model lib cf self df =
          fit_model lib (self\<lparr>feature_columns := Some synthetic_columns\<rparr>)
            (fst (snd (create_synthetic_training_data lib)))
            (snd (snd (create_synthetic_training_data lib))))
   \<and> (prepare_training_data cf df = Inr (feature_cols, X, y) \<and> 10 \<le> n_rows X \<longrightarrow>
      training_set lib cf df = Inr (feature_cols, X, y)
      \<and> train_model lib cf self df =
          fit_model lib (self\<lparr>feature_columns := Some feature_cols\<rparr>) X y)
   \<and> (cf df = Inr F \<and> map_of (cols F) ''deal_score'' = Some ycol \<and> floats ycol = Inr labels \<longrightarrow>
        (\<exists>feature_cols X y. prepare_training_data cf df = Inr (feature_cols, X, y)
           \<and> n_rows X = length (filter valid_label labels)
           \<and> y = masked (map valid_label labels) ycol))
   \<and> (valid_label label \<longleftrightarrow> (\<exists>v. label = Some v \<and> 0 \<le> v \<and> v \<le> 1))
   \<and> n_rows (fst (snd (create_synthetic_training_data lib))) = 1000
   \<and> columns (fst (snd (create_synthetic_training_data lib))) = synthetic_columns
   \<and> length synthetic_columns = 21
   \<and> (\<forall>c \<in> set (cols (fst (snd (create_synthetic_training_data lib)))). length (snd c) = 1000)
   \<and> length (snd (snd (create_synthetic_training_data lib))) = 1000
   \<and> (\<forall>c \<in> set (snd (snd (create_synthetic_training_data lib))).
         c = NaN \<or> (\<exists>v. c = Num v \<and> 0 \<le> v \<and> v \<le> 1))
   \<and> (train_test_split lib SX Sy = Inr (X_train, X_test, y_train, y_test)
        \<and> fit_transform lib (StandardScaler lib) X_train = Inr (scl, X_train_scaled)
        \<and> transform lib scl X_test = Inr X_test_scaled
        \<and> fit lib (GradientBoostingRegressor lib) X_train_scaled y_train = Inr mdl
        \<and> predict lib mdl X_test_scaled = Inr y_pred
        \<and> evaluate lib mdl X_train_scaled y_train y_test y_pred = Inr metrics
      \<longrightarrow> fit_model lib self' SX Sy = (self'\<lparr>scaler := Some scl, model := Some mdl\<rparr>, Inr metrics))"
proof -
  obtain names SX' Sy' where syn: "create_synthetic_training_data lib = (names, SX', Sy')"
    by (cases "create_synthetic_training_data lib") auto
  note shape = synthetic_shape [OF syn]
  have 1: "training_set lib cf df = Inr (create_synthetic_training_data lib)
      \<and> train_model lib cf self df =
          fit_model lib (self\<lparr>feature_columns := Some synthetic_columns\<rparr>)
            (fst (snd (create_synthetic_training_data lib)))
            (snd (snd (create_synthetic_training_data lib)))"
    if "prepare_training_data cf df = Inr (feature_cols, X, y) \<and> n_rows X < 10"
    using that shape by (simp add: training_set_def train_model_def syn)
  have 2: "training_set lib cf df = Inr (feature_cols, X, y)
      \<and> train_model lib cf self df =
          fit_model lib (self\<lparr>feature_columns := Some feature_cols\<rparr>) X y"
    if "prepare_training_data cf df = Inr (feature_cols, X, y) \<and> 10 \<le> n_rows X"
    using that by (simp add: training_set_def train_model_def)
  have 3: "\<exists>feature_cols X y. prepare_training_data cf df = Inr (feature_cols, X, y)
           \<and> n_rows X = length (filter valid_label labels)
           \<and> y = masked (map valid_label labels) ycol"
    if "cf df = Inr F \<and> map_of (cols F) ''deal_score'' = Some ycol \<and> floats ycol = Inr labels"
    using that prepare_with_labels [of cf df F ycol labels]
    by (simp add: n_rows_mask_rows filter_id_map)
  have 4: "valid_label label \<longleftrightarrow> (\<exists>v. label = Some v \<and> 0 \<le> v \<and> v \<le> 1)"
    by (cases label) (simp_all add: valid_label_def)
  have 5: "fit_model lib self' SX Sy = (self'\<lparr>scaler := Some scl, model := Some mdl\<rparr>, Inr metrics)"
    if "train_test_split lib SX Sy = Inr (X_train, X_test, y_train, y_test)
        \<and> fit_transform lib (StandardScaler lib) X_train = Inr (scl, X_train_scaled)
        \<and> transform lib scl X_test = Inr X_test_scaled
        \<and> fit lib (GradientBoostingRegressor lib) X_train_scaled y_train = Inr mdl
        \<and> predict lib mdl X_test_scaled = Inr y_pred
        \<and> evaluate lib mdl X_train_scaled y_train y_test y_pred = Inr metrics"
    using that by (intro fit_model_succeeds) auto
  from 1 2 3 4 5 shape show ?thesis
    unfolding syn by (simp only: fst_conv snd_conv) blast
qed


lemma prepare_example_few:
  "prepare_training_data Inr example_few =
     Inr ([''price''], \<lparr> n_rows = 1, cols = [(''price'', [Num 500])] \<rparr>, [Num 0.5])"
  by (simp add: prepare_training_data_def columns_def example_few_def exclude_cols_def
      select_def getitem_def valid_label_def mask_rows_def masked_def fillna_def fill_cell_def)

theorem train_model_falls_back_below_ten_rows_witness:
  "prepare_training_data Inr example_few =
     Inr ([''price''], \<lparr> n_rows = 1, cols = [(''price'', [Num 500])] \<rparr>, [Num 0.5])
   \<and> n_rows \<lparr> n_rows = 1, cols = [(''price'', [Num 500])] \<rparr> < 10
   \<and> training_set example_sklearn Inr example_few
       = Inr (create_synthetic_training_data example_sklearn)
   \<and> snd (train_model example_sklearn Inr new_deal_score_model example_few) = Inr ()
   \<and> model (fst (train_model example_sklearn Inr new_deal_score_model example_few)) = Some ()
   \<and> scaler (fst (train_model example_sklearn Inr new_deal_score_model example_few)) = Some ()
   \<and> feature_columns (fst (train_model example_sklearn Inr new_deal_score_model example_few))
       = Some synthetic_columns"
proof -
  let ?X = "\<lparr> n_rows = 1, cols = [(''price'', [Num 500])] \<rparr>"
  have a: "prepare_training_data Inr example_few = Inr ([''price''], ?X, [Num 0.5])
           \<and> n_rows ?X < 10"
    by (simp add: prepare_example_few)
  from train_model_falls_back_below_ten_rows
         [of Inr example_few "[''price'']" ?X "[Num 0.5]" example_sklearn new_deal_score_model] a
  have b: "training_set example_sklearn Inr example_few
             = Inr (create_synthetic_training_data example_sklearn)"
    and c: "train_model example_sklearn Inr new_deal_score_model example_few =
          fit_model example_sklearn (new_deal_score_model\<lparr>feature_columns := Some synthetic_columns\<rparr>)
            (fst (snd (create_synthetic_training_data example_sklearn)))
            (snd (snd (create_synthetic_training_data example_sklearn)))"
    by blast+
  have d: "fit_model example_sklearn s SX Sy = (s\<lparr>scaler := Some (), model := Some ()\<rparr>, Inr ())"
    for s :: "(unit, unit) deal_score_model" and SX Sy
    by (simp add: fit_model_def example_sklearn_def)
  from a b show ?thesis
    unfolding c d by (simp add: new_deal_score_model_def)
qed

text \<open>
  Ten rows with a label of 0.5 and no price: none is usable in the specification's
  sense, so fewer than 10 are, yet the code trains on these ten rows and not on the
  synthetic set.
\<close>

theorem train_model_usable_rows_counterexample:
  "floats (the (map_of (cols example_labelled) ''deal_score''))
     = Inr [Some 0.5, Some 0.5, Some 0.5, Some 0.5, Some 0.5,
            Some 0.5, Some 0.5, Some 0.5, Some 0.5, Some 0.5]
   \<and> floats (the (map_of (cols example_labelled) ''price''))
     = Inr [None, None, None, None, None, None, None, None, None, None]
   \<and> filter (\<lambda>(label, p). usable_as_specified label p)
        (zip [Some 0.5, Some 0.5, Some 0.5, Some 0.5, Some 0.5,
              Some 0.5, Some 0.5, Some 0.5, Some 0.5, Some 0.5]
             [None, None, None, None, None, None, None, None, None, None]) = []
   \<and> training_set example_sklearn Inr example_labelled =
       Inr ([''price''],
            \<lparr> n_rows = 10,
              cols = [(''price'', [Num 0, Num 0, Num 0, Num 0, Num 0,
                                   Num 0, Num 0, Num 0, Num 0, Num 0])] \<rparr>,
            [Num 0.5, Num 0.5, Num 0.5, Num 0.5, Num 0.5,
             Num 0.5, Num 0.5, Num 0.5, Num 0.5, Num 0.5])
   \<and> training_set example_sklearn Inr example_labelled
       \<noteq> Inr (create_synthetic_training_data example_sklearn)"
proof -
  have p: "prepare_training_data Inr example_labelled =
       Inr ([''price''],
            \<lparr> n_rows = 10,
              cols = [(''price'', [Num 0, Num 0, Num 0, Num 0, Num 0,
                                   Num 0, Num 0, Num 0, Num 0, Num 0])] \<rparr>,
            [Num 0.5, Num 0.5, Num 0.5, Num 0.5, Num 0.5,
             Num 0.5, Num 0.5, Num 0.5, Num 0.5, Num 0.5])"
    by (simp add: prepare_training_data_def columns_def example_labelled_def exclude_cols_def
      select_def getitem_def valid_label_def mask_rows_def masked_def fillna_def fill_cell_def)
  then have t: "training_set example_sklearn Inr example_labelled =
       Inr ([''price''],
            \<lparr> n_rows = 10,
              cols = [(''price'', [Num 0, Num 0, Num 0, Num 0, Num 0,
                                   Num 0, Num 0, Num 0, Num 0, Num 0])] \<rparr>,
            [Num 0.5, Num 0.5, Num 0.5, Num 0.5, Num 0.5,
             Num 0.5, Num 0.5, Num 0.5, Num 0.5, Num 0.5])"
    by (simp add: training_set_def)
  obtain names SX Sy where syn: "create_synthetic_training_data example_sklearn = (names, SX, Sy)"
    by (cases "create_synthetic_training_data example_sklearn") auto
  from synthetic_shape [OF syn] have "n_rows SX = 1000" by simp
  then have n: "training_set example_sklearn Inr example_labelled
                  \<noteq> Inr (create_synthetic_training_data example_sklearn)"
    unfolding t syn by auto
  have f: "floats (the (map_of (cols example_labelled) ''deal_score''))
     = Inr [Some 0.5, Some 0.5, Some 0.5, Some 0.5, Some 0.5,
            Some 0.5, Some 0.5, Some 0.5, Some 0.5, Some 0.5]
   \<and> floats (the (map_of (cols example_labelled) ''price''))
     = Inr [None, None, None, None, None, None, None, None, None, None]"
    by (simp add: example_labelled_def)
  have u: "filter (\<lambda>(label, p). usable_as_specified label p)
        (zip [Some 0.5, Some 0.5, Some 0.5, Some 0.5, Some 0.5,
              Some 0.5, Some 0.5, Some 0.5, Some 0.5, Some 0.5]
             [None, None, None, None, None, None, None, None, None, None]) = []"
    by (simp add: usable_as_specified_def)
  from f u t n show ?thesis by blast
qed

subsection \<open>The retraining job\<close>










lemma price_new_row [simp]: "price (new_row rowid now l) = price l"
  by (simp add: new_row_def listing.defs)














subsection \<open>Synthetic labels\<close>













lemma length_rows:
  "length plats = length ps \<Longrightarrow> length ps = length sc
     \<Longrightarrow> length (map (\<lambda>(c, x, s). f c x s) (zip plats (zip ps sc))) = length ps"
  by simp








lemma map2_Some:
  "map2 (\<lambda>s c. fop f s (Some (g c))) (map Some sc) cs = map Some (map2 (\<lambda>s c. f s (g c)) sc cs)"
  by (induction sc cs rule: list_induct2') (simp_all add: fop_def)




















end
